theory Spec2Isabelle
  imports Complex_Main
begin

section \<open>Interval arithmetic of timelib: ext/date/lib/interval.c\<close>

text \<open>
  The file computes the difference of two instants (\<open>timelib_diff\<close>) and applies an
  interval to an instant (\<open>timelib_add\<close>, \<open>timelib_sub\<close> and the wall-clock variants).
  The calendar fields, the epoch seconds and the interval fields are \<open>timelib_sll\<close>
  (a signed 64-bit integer) in C. Signed overflow is undefined in C, so the fields are
  modelled as \<open>int\<close>: the model and the program agree wherever the program is defined.
\<close>

subsection \<open>C integer division\<close>

text \<open>C's \<open>/\<close> truncates towards zero and \<open>%\<close> takes the sign of the dividend.\<close>

definition c_div :: "int \<Rightarrow> int \<Rightarrow> int" where
  "c_div a b = sgn a * sgn b * (\<bar>a\<bar> div \<bar>b\<bar>)"

definition c_mod :: "int \<Rightarrow> int \<Rightarrow> int" where
  "c_mod a b = a - b * c_div a b"

text \<open>
  Modelled from the spec: \<open>SECS_PER_HOUR\<close> and \<open>SECS_PER_DAY\<close> are macros of
  timelib_private.h, which is not among the sources; the spec gives 3600 and 86400.
\<close>

definition SECS_PER_HOUR :: int where
  "SECS_PER_HOUR = 3600"

definition SECS_PER_DAY :: int where
  "SECS_PER_DAY = 86400"

subsection \<open>Range reduction (lines 283-293)\<close>

text \<open>
  \<open>do_range_limit start end adj a b\<close> returns the new values of \<open>*a\<close> and \<open>*b\<close>.
  Both statements of each branch read \<open>*a\<close> before it is written.
\<close>

definition do_range_limit :: "int \<Rightarrow> int \<Rightarrow> int \<Rightarrow> int \<Rightarrow> int \<Rightarrow> int \<times> int" where
  "do_range_limit start end' adj a b =
     (let (a1, b1) =
            (if a < start
             then (a + adj * (c_div (start - a - 1) adj + 1),
                   b - (c_div (start - a - 1) adj + 1))
             else (a, b));
          (a2, b2) =
            (if a1 \<ge> end'
             then (a1 - adj * c_div a1 adj, b1 + c_div a1 adj)
             else (a1, b1))
      in (a2, b2))"

subsection \<open>Data\<close>

text \<open>
  Modelled from the spec: the structures \<open>timelib_time\<close>, \<open>timelib_rel_time\<close> and
  \<open>timelib_tzinfo\<close> and the constant \<open>TIMELIB_ZONETYPE_ID\<close> are declared in timelib.h,
  which is not among the sources. The records list the fields that interval.c reads or
  writes (section 3 of the spec: calendar components, epoch seconds, offset, DST flag,
  zone descriptor; interval deltas, invert flag, day count and the two special modes),
  and the payload of the two special modes that \<open>memcpy\<close> carries along. Calendar fields
  of an instant are prefixed \<open>t_\<close> and those of an interval \<open>r_\<close>, since both
  structures call them \<open>y m d h i s us\<close>. A pointer to a zone is an \<open>option\<close>
  (\<open>None\<close> is \<open>NULL\<close>); of the zone itself only the name is read here. The zone
  type is an \<open>unsigned int\<close> that is only compared with \<open>TIMELIB_ZONETYPE_ID\<close>; the
  value of that constant plays no part.
\<close>

record timelib_tzinfo =
  tz_name :: string

record timelib_rel_time =
  r_y :: int
  r_m :: int
  r_d :: int
  r_h :: int
  r_i :: int
  r_s :: int
  r_us :: int
  weekday :: int
  weekday_behavior :: int
  first_last_day_of :: int
  invert :: int
  days :: int
  special_type :: nat
  special_amount :: int
  have_weekday_relative :: nat
  have_special_relative :: nat

record timelib_time =
  t_y :: int
  t_m :: int
  t_d :: int
  t_h :: int
  t_i :: int
  t_s :: int
  t_us :: int
  z :: int
  tz_info :: "timelib_tzinfo option"
  dst :: int
  relative :: timelib_rel_time
  sse :: int
  have_relative :: nat
  sse_uptodate :: nat
  zone_type :: nat

definition TIMELIB_ZONETYPE_ID :: nat where
  "TIMELIB_ZONETYPE_ID = 3"

text \<open>Dereferencing a \<open>NULL\<close> zone pointer is the one way these functions can fail.\<close>

datatype error = NullPointer

subsection \<open>Functions defined outside interval.c\<close>

text \<open>
  Modelled from the spec: the functions that interval.c calls and that are defined in
  other files of timelib (section 6 of the spec) are parameters of the model, collected
  in one record and named as in the source.
  \<^item> \<open>timelib_rel_time_ctor\<close> is the freshly allocated interval.
  \<^item> \<open>timelib_do_rel_normalize base rt\<close> is the interval after carrying.
  \<^item> \<open>timelib_get_time_zone_offset_info ts tz\<close> is \<open>None\<close> when the lookup reports
    failure and \<open>Some (offset, transition_time)\<close> otherwise.
  \<^item> \<open>timelib_same_timezone\<close> and \<open>timelib_time_compare\<close> return a C \<open>int\<close>.
  \<^item> \<open>timelib_hmsf_to_decimal_hour\<close> returns a \<open>double\<close>, modelled as a real number.
  \<^item> \<open>timelib_update_ts\<close> (called with a \<open>NULL\<close> zone) and \<open>timelib_update_from_sse\<close>
    return the instant they have updated in place.
\<close>

record collaborators =
  timelib_rel_time_ctor :: timelib_rel_time
  timelib_do_rel_normalize :: "timelib_time \<Rightarrow> timelib_rel_time \<Rightarrow> timelib_rel_time"
  timelib_get_time_zone_offset_info :: "int \<Rightarrow> timelib_tzinfo option \<Rightarrow> (int \<times> int) option"
  timelib_same_timezone :: "timelib_time \<Rightarrow> timelib_time \<Rightarrow> int"
  timelib_time_compare :: "timelib_time \<Rightarrow> timelib_time \<Rightarrow> int"
  timelib_hmsf_to_decimal_hour :: "int \<Rightarrow> int \<Rightarrow> int \<Rightarrow> int \<Rightarrow> real"
  timelib_epoch_days_from_time :: "timelib_time \<Rightarrow> int"
  timelib_update_ts :: "timelib_time \<Rightarrow> timelib_time"
  timelib_update_from_sse :: "timelib_time \<Rightarrow> timelib_time"

text \<open>
  Modelled from the spec: \<open>timelib_do_rel_normalize\<close> "carries calendar-field
  overflow/underflow across y/m/d/h/i/s/us", mutating the interval in place. The call
  therefore replaces these seven fields by the carried ones and keeps every other field
  of the interval (\<open>invert\<close>, \<open>days\<close>, the special modes).
\<close>

definition rel_normalize :: "collaborators \<Rightarrow> timelib_time \<Rightarrow> timelib_rel_time \<Rightarrow> timelib_rel_time" where
  "rel_normalize X base rt =
     (let n = timelib_do_rel_normalize X base rt
      in rt\<lparr>r_y := r_y n, r_m := r_m n, r_d := r_d n, r_h := r_h n,
             r_i := r_i n, r_s := r_s n, r_us := r_us n\<rparr>)"

subsection \<open>Ordering (lines 30-74)\<close>

definition swap_times ::
  "timelib_time \<Rightarrow> timelib_time \<Rightarrow> timelib_rel_time \<Rightarrow> timelib_time \<times> timelib_time \<times> timelib_rel_time" where
  "swap_times one two rt = (two, one, rt\<lparr>invert := 1\<rparr>)"

text \<open>
  The test of lines 46-50, repeated on line 160: both zone types are
  \<open>TIMELIB_ZONETYPE_ID\<close> and \<open>strcmp\<close> finds the two zone names equal. \<open>&&\<close> evaluates
  \<open>strcmp\<close> only for two named zones; it then reads both names through \<open>tz_info\<close>.
\<close>

definition same_tzid :: "timelib_time \<Rightarrow> timelib_time \<Rightarrow> error + bool" where
  "same_tzid one two =
     (if zone_type one = TIMELIB_ZONETYPE_ID \<and> zone_type two = TIMELIB_ZONETYPE_ID
      then (case tz_info one of
              None \<Rightarrow> Inl NullPointer
            | Some tz1 \<Rightarrow>
                (case tz_info two of
                   None \<Rightarrow> Inl NullPointer
                 | Some tz2 \<Rightarrow> Inr (tz_name tz1 = tz_name tz2)))
      else Inr False)"

definition sort_old_to_new ::
  "timelib_time \<Rightarrow> timelib_time \<Rightarrow> timelib_rel_time \<Rightarrow>
   error + (timelib_time \<times> timelib_time \<times> timelib_rel_time)" where
  "sort_old_to_new one two rt =
     (case same_tzid one two of
        Inl e \<Rightarrow> Inl e
      | Inr True \<Rightarrow>
          Inr (if (t_y one > t_y two) \<or>
                  (t_y one = t_y two \<and> t_m one > t_m two) \<or>
                  (t_y one = t_y two \<and> t_m one = t_m two \<and> t_d one > t_d two) \<or>
                  (t_y one = t_y two \<and> t_m one = t_m two \<and> t_d one = t_d two \<and>
                   t_h one > t_h two) \<or>
                  (t_y one = t_y two \<and> t_m one = t_m two \<and> t_d one = t_d two \<and>
                   t_h one = t_h two \<and> t_i one > t_i two) \<or>
                  (t_y one = t_y two \<and> t_m one = t_m two \<and> t_d one = t_d two \<and>
                   t_h one = t_h two \<and> t_i one = t_i two \<and> t_s one > t_s two) \<or>
                  (t_y one = t_y two \<and> t_m one = t_m two \<and> t_d one = t_d two \<and>
                   t_h one = t_h two \<and> t_i one = t_i two \<and> t_s one = t_s two \<and>
                   t_us one > t_us two)
               then swap_times one two rt
               else (one, two, rt))
      | Inr False \<Rightarrow>
          Inr (if (sse one > sse two) \<or> (sse one = sse two \<and> t_us one > t_us two)
               then swap_times one two rt
               else (one, two, rt)))"

subsection \<open>Day count (lines 192-220)\<close>

text \<open>
  The function returns a C \<open>int\<close> of 32 bits, and its local \<open>days\<close> is one. Line 211
  assigns the \<open>long long\<close> of \<open>llabs\<close> to it: the narrowing is implementation-defined and
  reduces modulo \<open>2^32\<close> into the signed range on the compilers in use. The caller stores
  the \<open>int\<close> in the 64-bit field \<open>rt->days\<close>, which keeps its value.
\<close>

definition c_int :: "int \<Rightarrow> int" where
  "c_int x = (x + 2147483648) mod 4294967296 - 2147483648"

text \<open>
  \<open>floor\<close> and \<open>fabs\<close> work on \<open>double\<close>, modelled as real numbers; the conversion of
  a \<open>double\<close> to \<open>int\<close> on line 216 truncates towards zero. For a value outside the
  range of \<open>int\<close> that conversion is undefined in C; the model narrows it like line 211,
  so that the result is an \<open>int\<close> in every case.
\<close>

definition c_trunc :: "real \<Rightarrow> int" where
  "c_trunc x = (if 0 \<le> x then \<lfloor>x\<rfloor> else \<lceil>x\<rceil>)"

definition timelib_diff_days :: "collaborators \<Rightarrow> timelib_time \<Rightarrow> timelib_time \<Rightarrow> int" where
  "timelib_diff_days X one two =
     (if timelib_same_timezone X one two \<noteq> 0
      then
        let (earliest, latest) =
              (if timelib_time_compare X one two < 0 then (one, two) else (two, one));
            earliest_time =
              timelib_hmsf_to_decimal_hour X (t_h earliest) (t_i earliest) (t_s earliest)
                (t_us earliest);
            latest_time =
              timelib_hmsf_to_decimal_hour X (t_h latest) (t_i latest) (t_s latest)
                (t_us latest);
            days0 =
              c_int \<bar>timelib_epoch_days_from_time X one - timelib_epoch_days_from_time X two\<bar>
        in if latest_time < earliest_time \<and> days0 > 0 then days0 - 1 else days0
      else c_int (c_trunc \<bar>real_of_int \<lfloor>real_of_int (sse one - sse two)\<rfloor> / 86400\<bar>))"

subsection \<open>Difference in a shared named zone (lines 77-152)\<close>

text \<open>Lines 95-103: the field differences and the day count.\<close>

definition tzid_fields ::
  "collaborators \<Rightarrow> timelib_time \<Rightarrow> timelib_time \<Rightarrow> timelib_rel_time \<Rightarrow> timelib_rel_time" where
  "tzid_fields X one two rt =
     rt\<lparr>r_y := t_y two - t_y one, r_m := t_m two - t_m one, r_d := t_d two - t_d one,
        r_h := t_h two - t_h one, r_i := t_i two - t_i one, r_s := t_s two - t_s one,
        r_us := t_us two - t_us one, days := timelib_diff_days X one two\<rparr>"

text \<open>Lines 106-114: the operands are in field order but not in epoch order.\<close>

definition tzid_flip :: "timelib_time \<Rightarrow> timelib_time \<Rightarrow> timelib_rel_time \<Rightarrow> timelib_rel_time" where
  "tzid_flip one two rt =
     (if sse two < sse one
      then
        let dst_corr = z two - z one;
            flipped = \<bar>(r_i rt * 60) + (r_s rt) - dst_corr\<bar>;
            h' = c_div flipped SECS_PER_HOUR
        in rt\<lparr>r_h := h', r_i := c_div (flipped - h' * SECS_PER_HOUR) 60,
               r_s := c_mod flipped 60, invert := 1 - invert rt\<rparr>
      else rt)"

text \<open>Lines 89-116: everything up to and including the call of the normaliser.\<close>

definition tzid_normalized ::
  "collaborators \<Rightarrow> timelib_time \<Rightarrow> timelib_time \<Rightarrow> timelib_rel_time \<Rightarrow> timelib_rel_time" where
  "tzid_normalized X one two rt0 =
     (let rt = tzid_flip one two (tzid_fields X one two rt0)
      in rel_normalize X (if invert rt \<noteq> 0 then one else two) rt)"

text \<open>Lines 118-149: the three corrections that follow the normaliser.\<close>

definition tzid_dst_correct ::
  "collaborators \<Rightarrow> timelib_time \<Rightarrow> timelib_time \<Rightarrow> timelib_rel_time \<Rightarrow> timelib_rel_time" where
  "tzid_dst_correct X one two rt =
     (let dst_corr = z two - z one;
          dst_h_corr = c_div dst_corr 3600;
          dst_m_corr = c_div (c_mod dst_corr 3600) 60
      in
        if dst one = 1 \<and> dst two = 0 then
          (case tz_info two of
             None \<Rightarrow> rt
           | Some _ \<Rightarrow>
               if (sse two - sse one + dst_corr) < SECS_PER_DAY
               then rt\<lparr>r_h := r_h rt - dst_h_corr, r_i := r_i rt - dst_m_corr\<rparr>
               else rt)
        else if dst one = 0 \<and> dst two = 1 then
          (case tz_info two of
             None \<Rightarrow> rt
           | Some _ \<Rightarrow>
               (case timelib_get_time_zone_offset_info X (sse two) (tz_info two) of
                  None \<Rightarrow> rt
                | Some (trans_offset, trans_transition_time) \<Rightarrow>
                    if \<not> ((sse one + SECS_PER_DAY > trans_transition_time) \<and>
                           (sse one + SECS_PER_DAY \<le> (trans_transition_time + dst_corr))) \<and>
                       sse two \<ge> trans_transition_time \<and>
                       c_mod (sse two - sse one + dst_corr) SECS_PER_DAY
                         > (sse two - trans_transition_time)
                    then rt\<lparr>r_h := r_h rt - dst_h_corr, r_i := r_i rt - dst_m_corr\<rparr>
                    else rt))
        else if sse two - sse one \<ge> SECS_PER_DAY then
          (case timelib_get_time_zone_offset_info X (sse two - z two) (tz_info two) of
             None \<Rightarrow> rt
           | Some (trans_offset, trans_transition_time) \<Rightarrow>
               let dst_corr' = z one - trans_offset
               in if sse two \<ge> trans_transition_time - dst_corr' \<and>
                     sse two < trans_transition_time
                  then rt\<lparr>r_d := r_d rt - 1, r_h := 24\<rparr>
                  else rt)
        else rt)"

definition timelib_diff_with_tzid ::
  "collaborators \<Rightarrow> timelib_time \<Rightarrow> timelib_time \<Rightarrow> error + timelib_rel_time" where
  "timelib_diff_with_tzid X one0 two0 =
     (case sort_old_to_new one0 two0 ((timelib_rel_time_ctor X)\<lparr>invert := 0\<rparr>) of
        Inl e \<Rightarrow> Inl e
      | Inr (one, two, rt) \<Rightarrow>
          Inr (tzid_dst_correct X one two (tzid_normalized X one two rt)))"

subsection \<open>Difference in general (lines 155-188)\<close>

text \<open>Lines 169-183: the field differences, DST and offset rolled in, and the day count.\<close>

definition diff_fields ::
  "collaborators \<Rightarrow> timelib_time \<Rightarrow> timelib_time \<Rightarrow> timelib_rel_time \<Rightarrow> timelib_rel_time" where
  "diff_fields X one two rt =
     (let rt = rt\<lparr>r_y := t_y two - t_y one, r_m := t_m two - t_m one,
                  r_d := t_d two - t_d one, r_h := t_h two - t_h one\<rparr>;
          rt = (if zone_type one \<noteq> TIMELIB_ZONETYPE_ID then rt\<lparr>r_h := r_h rt + dst one\<rparr> else rt);
          rt = (if zone_type two \<noteq> TIMELIB_ZONETYPE_ID then rt\<lparr>r_h := r_h rt - dst two\<rparr> else rt);
          rt = rt\<lparr>r_i := t_i two - t_i one, r_s := t_s two - t_s one - z two + z one,
                  r_us := t_us two - t_us one\<rparr>
      in rt\<lparr>days := timelib_diff_days X one two\<rparr>)"

definition timelib_diff ::
  "collaborators \<Rightarrow> timelib_time \<Rightarrow> timelib_time \<Rightarrow> error + timelib_rel_time" where
  "timelib_diff X one0 two0 =
     (case same_tzid one0 two0 of
        Inl e \<Rightarrow> Inl e
      | Inr True \<Rightarrow> timelib_diff_with_tzid X one0 two0
      | Inr False \<Rightarrow>
          (case sort_old_to_new one0 two0 ((timelib_rel_time_ctor X)\<lparr>invert := 0\<rparr>) of
             Inl e \<Rightarrow> Inl e
           | Inr (one, two, rt0) \<Rightarrow>
               let rt = diff_fields X one two rt0
               in Inr (rel_normalize X (if invert rt \<noteq> 0 then one else two) rt)))"

subsection \<open>Applying an interval (lines 223-281)\<close>

text \<open>\<open>memset\<close> with 0 clears every field of the interval.\<close>

definition zero_rel_time :: timelib_rel_time where
  "zero_rel_time =
     \<lparr>r_y = 0, r_m = 0, r_d = 0, r_h = 0, r_i = 0, r_s = 0, r_us = 0, weekday = 0,
      weekday_behavior = 0, first_last_day_of = 0, invert = 0, days = 0, special_type = 0,
      special_amount = 0, have_weekday_relative = 0, have_special_relative = 0\<rparr>"

text \<open>
  Lines 225-244 of \<open>timelib_add\<close> and lines 256-272 of \<open>timelib_sub\<close>: the clone with
  its \<open>relative\<close> slot and the two flags written, as \<open>timelib_update_ts\<close> receives it.
  The clone is a copy of the instant, which is a value here.
\<close>

definition timelib_add_relative :: "timelib_time \<Rightarrow> timelib_rel_time \<Rightarrow> timelib_time" where
  "timelib_add_relative old_time interval =
     (let t = old_time;
          t = (if have_weekday_relative interval \<noteq> 0 \<or> have_special_relative interval \<noteq> 0
               then t\<lparr>relative := interval\<rparr>
               else
                 let bias = (if invert interval \<noteq> 0 then - 1 else 1)
                 in t\<lparr>relative := zero_rel_time
                       \<lparr>r_y := r_y interval * bias, r_m := r_m interval * bias,
                        r_d := r_d interval * bias, r_h := r_h interval * bias,
                        r_i := r_i interval * bias, r_s := r_s interval * bias,
                        r_us := r_us interval * bias\<rparr>\<rparr>)
      in t\<lparr>have_relative := 1, sse_uptodate := 0\<rparr>)"

definition timelib_sub_relative :: "timelib_time \<Rightarrow> timelib_rel_time \<Rightarrow> timelib_time" where
  "timelib_sub_relative old_time interval =
     (let t = old_time;
          bias = (if invert interval \<noteq> 0 then - 1 else 1);
          t = t\<lparr>relative := zero_rel_time
                \<lparr>r_y := 0 - (r_y interval * bias), r_m := 0 - (r_m interval * bias),
                 r_d := 0 - (r_d interval * bias), r_h := 0 - (r_h interval * bias),
                 r_i := 0 - (r_i interval * bias), r_s := 0 - (r_s interval * bias),
                 r_us := 0 - (r_us interval * bias)\<rparr>\<rparr>
      in t\<lparr>have_relative := 1, sse_uptodate := 0\<rparr>)"

text \<open>Lines 246-251 and 274-280: the round trip through the epoch, the same in both.\<close>

definition timelib_add :: "collaborators \<Rightarrow> timelib_time \<Rightarrow> timelib_rel_time \<Rightarrow> timelib_time" where
  "timelib_add X old_time interval =
     (let t = timelib_add_relative old_time interval;
          t = timelib_update_ts X t;
          t = timelib_update_from_sse X t
      in t\<lparr>have_relative := 0\<rparr>)"

definition timelib_sub :: "collaborators \<Rightarrow> timelib_time \<Rightarrow> timelib_rel_time \<Rightarrow> timelib_time" where
  "timelib_sub X old_time interval =
     (let t = timelib_sub_relative old_time interval;
          t = timelib_update_ts X t;
          t = timelib_update_from_sse X t
      in t\<lparr>have_relative := 0\<rparr>)"

subsection \<open>The ordering in the words of the specification\<close>

text \<open>
  Section 4.1 of the spec compares two instants field by field in a fixed priority order:
  the first field that differs decides, and equal fields fall through to the next one.
  For a shared named zone the fields are the calendar fields, otherwise the epoch seconds
  and then the microseconds.
\<close>

fun first_difference_later :: "int list \<Rightarrow> int list \<Rightarrow> bool" where
  "first_difference_later (a # as) (b # bs) =
     (if a = b then first_difference_later as bs else a > b)"
| "first_difference_later _ _ = False"

definition calendar_fields :: "timelib_time \<Rightarrow> int list" where
  "calendar_fields t = [t_y t, t_m t, t_d t, t_h t, t_i t, t_s t, t_us t]"

definition epoch_fields :: "timelib_time \<Rightarrow> int list" where
  "epoch_fields t = [sse t, t_us t]"

definition first_is_later :: "bool \<Rightarrow> timelib_time \<Rightarrow> timelib_time \<Rightarrow> bool" where
  "first_is_later shared_zone a b =
     (if shared_zone
      then first_difference_later (calendar_fields a) (calendar_fields b)
      else first_difference_later (epoch_fields a) (epoch_fields b))"

text \<open>
  The magnitude fields of an interval, as the antisymmetry property of section 8 of the
  spec lists them: everything that \<open>timelib_diff\<close> computes except the invert flag.
\<close>

definition magnitudes :: "timelib_rel_time \<Rightarrow> int list" where
  "magnitudes rt = [r_y rt, r_m rt, r_d rt, r_h rt, r_i rt, r_s rt, r_us rt, days rt]"

subsection \<open>Concrete instants and collaborators for the examples\<close>

text \<open>
  The examples run the model on concrete instants. Their collaborators carry interval
  fields with \<open>do_range_limit\<close> alone (seconds into minutes, minutes into hours, hours
  into days, months into years; no borrowing of days from months, which no example
  needs), know no zone transition, compare instants by epoch seconds and microseconds,
  take two instants to be in the same zone when they have one zone type and either the
  same named zone or the same total offset, count epoch days in local time, and add the
  seconds of \<open>relative\<close> to the epoch.
\<close>

definition carry_fields :: "timelib_time \<Rightarrow> timelib_rel_time \<Rightarrow> timelib_rel_time" where
  "carry_fields base rt =
     (let (us', s1) = do_range_limit 0 1000000 1000000 (r_us rt) (r_s rt);
          (s', i1) = do_range_limit 0 60 60 s1 (r_i rt);
          (i', h1) = do_range_limit 0 60 60 i1 (r_h rt);
          (h', d') = do_range_limit 0 24 24 h1 (r_d rt);
          (m', y') = do_range_limit 0 12 12 (r_m rt) (r_y rt)
      in rt\<lparr>r_y := y', r_m := m', r_d := d', r_h := h', r_i := i', r_s := s', r_us := us'\<rparr>)"

definition example_collaborators :: collaborators where
  "example_collaborators =
     \<lparr>timelib_rel_time_ctor = zero_rel_time,
      timelib_do_rel_normalize = carry_fields,
      timelib_get_time_zone_offset_info = (\<lambda>ts tz. None),
      timelib_same_timezone =
        (\<lambda>a b. if zone_type a = zone_type b \<and>
                   (if zone_type a = TIMELIB_ZONETYPE_ID then tz_info a = tz_info b
                    else z a + dst a * 3600 = z b + dst b * 3600)
                then 1 else 0),
      timelib_time_compare =
        (\<lambda>a b. if sse a = sse b
                then (if t_us a = t_us b then 0 else if t_us a < t_us b then - 1 else 1)
                else if sse a < sse b then - 1 else 1),
      timelib_hmsf_to_decimal_hour =
        (\<lambda>h i s us. real_of_int h + real_of_int i / 60 + real_of_int s / 3600
                     + real_of_int us / 3600000000),
      timelib_epoch_days_from_time = (\<lambda>t. (sse t + z t) div 86400),
      timelib_update_ts =
        (\<lambda>t. t\<lparr>sse := sse t + r_h (relative t) * 3600 + r_i (relative t) * 60
                        + r_s (relative t),
                sse_uptodate := 1\<rparr>),
      timelib_update_from_sse = (\<lambda>t. t)\<rparr>"

definition civil ::
  "int \<Rightarrow> int \<Rightarrow> int \<Rightarrow> int \<Rightarrow> int \<Rightarrow> int \<Rightarrow> int \<Rightarrow> int \<Rightarrow> nat \<Rightarrow> string option \<Rightarrow> int
   \<Rightarrow> timelib_time" where
  "civil year month day hour minute second offset dst_flag ztype zname epoch =
     \<lparr>t_y = year, t_m = month, t_d = day, t_h = hour, t_i = minute, t_s = second, t_us = 0,
      z = offset, tz_info = map_option (\<lambda>n. \<lparr>tz_name = n\<rparr>) zname, dst = dst_flag,
      relative = zero_rel_time, sse = epoch, have_relative = 0, sse_uptodate = 1,
      zone_type = ztype\<rparr>"

text \<open>
  America/Caracas moved from UTC-4:00 to UTC-4:30 on 2007-12-09 at 03:00 local time, with
  no DST flag on either side: the wall-clock time 02:45 occurred twice, 1800 seconds
  apart.
\<close>

definition caracas_first :: timelib_time where
  "caracas_first = civil 2007 12 9 2 45 0 (- 14400) 0 3 (Some ''America/Caracas'') 1197182700"

definition caracas_second :: timelib_time where
  "caracas_second = civil 2007 12 9 2 45 0 (- 16200) 0 3 (Some ''America/Caracas'') 1197184500"

definition caracas_later :: timelib_time where
  "caracas_later = civil 2007 12 11 2 45 0 (- 16200) 0 3 (Some ''America/Caracas'') 1197357300"

definition caracas_dec11_0100 :: timelib_time where
  "caracas_dec11_0100 = civil 2007 12 11 1 0 0 (- 16200) 0 3 (Some ''America/Caracas'') 1197351000"

text \<open>
  America/New_York left DST on 2023-11-05 at 02:00 local time (06:00 UTC) and entered
  it on 2023-03-12 at 02:00 local time (07:00 UTC).
\<close>

definition ny_0030_edt :: timelib_time where
  "ny_0030_edt = civil 2023 11 5 0 30 0 (- 14400) 1 3 (Some ''America/New_York'') 1699158600"

definition ny_0130_edt :: timelib_time where
  "ny_0130_edt = civil 2023 11 5 1 30 0 (- 14400) 1 3 (Some ''America/New_York'') 1699162200"

definition ny_0115_est :: timelib_time where
  "ny_0115_est = civil 2023 11 5 1 15 0 (- 18000) 0 3 (Some ''America/New_York'') 1699164900"

definition ny_0130_est :: timelib_time where
  "ny_0130_est = civil 2023 11 5 1 30 0 (- 18000) 0 3 (Some ''America/New_York'') 1699165800"

definition ny_nov7_0130_est :: timelib_time where
  "ny_nov7_0130_est = civil 2023 11 7 1 30 0 (- 18000) 0 3 (Some ''America/New_York'') 1699338600"

definition ny_march_0130_est :: timelib_time where
  "ny_march_0130_est = civil 2023 3 12 1 30 0 (- 18000) 0 3 (Some ''America/New_York'') 1678602600"

definition ny_march_0330_edt :: timelib_time where
  "ny_march_0330_edt = civil 2023 3 12 3 30 0 (- 14400) 1 3 (Some ''America/New_York'') 1678606200"

text \<open>
  The same collaborators with a zone table that knows the transition of 2023-03-12
  07:00 UTC to the offset -4:00, and nothing before it.
\<close>

definition march_2023_collaborators :: collaborators where
  "march_2023_collaborators =
     example_collaborators
       \<lparr>timelib_get_time_zone_offset_info :=
          (\<lambda>ts tz. if ts \<ge> 1678604400 then Some (- 14400, 1678604400) else None)\<rparr>"

text \<open>Two instants with fixed offsets (zone type 1), in different zones.\<close>

definition plus1_noon :: timelib_time where
  "plus1_noon = civil 2024 1 10 12 0 0 3600 0 1 None 1704884400"


text \<open>
  An instant given with the abbreviation EDT (zone type 2: offset -5:00 and the DST flag)
  and one with the fixed offset +02:00 (zone type 1).
\<close>

definition edt_noon :: timelib_time where
  "edt_noon = civil 2024 7 1 12 0 0 (- 18000) 1 2 None 1719849600"

definition plus2_evening :: timelib_time where
  "plus2_evening = civil 2024 7 2 20 0 0 7200 0 1 None 1719943200"

text \<open>
  Two instants at offset +00:00 (zone type 1) that are \<open>2^31\<close> days apart: the epoch
  and midnight of 5881580-07-12.
\<close>

definition epoch_utc :: timelib_time where
  "epoch_utc = civil 1970 1 1 0 0 0 0 0 1 None 0"

definition far_utc :: timelib_time where
  "far_utc = civil 5881580 7 12 0 0 0 0 0 1 None 185542587187200"

text \<open>
  Two intervals: two hours and a half, and "one day, next Tuesday", which has the
  weekday-relative mode.
\<close>

definition hours_2_30 :: timelib_rel_time where
  "hours_2_30 = zero_rel_time\<lparr>r_h := 2, r_i := 30\<rparr>"

definition next_tuesday :: timelib_rel_time where
  "next_tuesday = zero_rel_time\<lparr>r_d := 1, weekday := 2, have_weekday_relative := 1\<rparr>"

section \<open>Properties\<close>

subsection \<open>Division\<close>

lemma c_div_nonneg: "0 \<le> a \<Longrightarrow> 0 < b \<Longrightarrow> c_div a b = a div b"
  by (cases "a = 0") (simp_all add: c_div_def)

lemma c_mod_nonneg: "0 \<le> a \<Longrightarrow> 0 < b \<Longrightarrow> c_mod a b = a mod b"
  by (simp add: c_mod_def c_div_nonneg minus_mult_div_eq_mod)

subsection \<open>Ordering of the operands\<close>

lemma same_tzid_sym: "same_tzid b a = same_tzid a b"
  by (auto simp: same_tzid_def split: option.splits)

lemma first_difference_later_calendar:
  "first_difference_later (calendar_fields one) (calendar_fields two) \<longleftrightarrow>
     (t_y one > t_y two) \<or>
     (t_y one = t_y two \<and> t_m one > t_m two) \<or>
     (t_y one = t_y two \<and> t_m one = t_m two \<and> t_d one > t_d two) \<or>
     (t_y one = t_y two \<and> t_m one = t_m two \<and> t_d one = t_d two \<and> t_h one > t_h two) \<or>
     (t_y one = t_y two \<and> t_m one = t_m two \<and> t_d one = t_d two \<and> t_h one = t_h two \<and>
      t_i one > t_i two) \<or>
     (t_y one = t_y two \<and> t_m one = t_m two \<and> t_d one = t_d two \<and> t_h one = t_h two \<and>
      t_i one = t_i two \<and> t_s one > t_s two) \<or>
     (t_y one = t_y two \<and> t_m one = t_m two \<and> t_d one = t_d two \<and> t_h one = t_h two \<and>
      t_i one = t_i two \<and> t_s one = t_s two \<and> t_us one > t_us two)"
  by (simp add: calendar_fields_def)

lemma first_difference_later_epoch:
  "first_difference_later (epoch_fields one) (epoch_fields two) \<longleftrightarrow>
     (sse one > sse two) \<or> (sse one = sse two \<and> t_us one > t_us two)"
  by (simp add: epoch_fields_def)

lemma sort_old_to_new_eq:
  assumes "same_tzid one two = Inr tz"
  shows "sort_old_to_new one two rt =
           Inr (if first_is_later tz one two then (two, one, rt\<lparr>invert := 1\<rparr>)
                else (one, two, rt))"
proof (cases tz)
  case True
  then show ?thesis
    using assms
    by (simp only: sort_old_to_new_def first_is_later_def
        first_difference_later_calendar swap_times_def sum.case bool.case if_True)
next
  case False
  then show ?thesis
    using assms
    by (simp only: sort_old_to_new_def first_is_later_def
        first_difference_later_epoch swap_times_def sum.case bool.case if_False)
qed



subsection \<open>The difference in a shared named zone\<close>

lemma sort_old_to_new_cases:
  assumes "sort_old_to_new a b (rt0\<lparr>invert := 0\<rparr>) = Inr (one, two, rt)"
  shows "(one = a \<and> two = b \<and> rt = rt0\<lparr>invert := 0\<rparr>) \<or>
         (one = b \<and> two = a \<and> rt = rt0\<lparr>invert := 1\<rparr>)"
proof (cases "same_tzid a b")
  case (Inl e)
  then show ?thesis using assms by (simp add: sort_old_to_new_def)
next
  case (Inr tz)
  show ?thesis
    using assms sort_old_to_new_eq [OF Inr, of "rt0\<lparr>invert := 0\<rparr>"]
    by (simp split: if_splits)
qed

lemma timelib_diff_shared:
  assumes "same_tzid a b = Inr True"
    and "sort_old_to_new a b ((timelib_rel_time_ctor X)\<lparr>invert := 0\<rparr>) = Inr (one, two, rt)"
  shows "timelib_diff X a b = Inr (tzid_dst_correct X one two (tzid_normalized X one two rt))"
  using assms by (simp add: timelib_diff_def timelib_diff_with_tzid_def)

lemma hms_of_nonneg:
  assumes "0 \<le> f"
  shows "c_div f SECS_PER_HOUR = f div 3600"
    and "c_div (f - f div 3600 * SECS_PER_HOUR) 60 = (f mod 3600) div 60"
    and "c_mod f 60 = f mod 60"
proof -
  show "c_div f SECS_PER_HOUR = f div 3600"
    using assms by (simp add: SECS_PER_HOUR_def c_div_nonneg)
  have m: "f - f div 3600 * 3600 = f mod 3600"
    by (simp add: minus_div_mult_eq_mod)
  show "c_div (f - f div 3600 * SECS_PER_HOUR) 60 = (f mod 3600) div 60"
    unfolding SECS_PER_HOUR_def m by (rule c_div_nonneg) simp_all
  show "c_mod f 60 = f mod 60"
    using assms by (simp add: c_mod_nonneg)
qed

lemma tzid_flip_out_of_order:
  assumes "sse two < sse one"
  shows "tzid_flip one two rt =
           rt\<lparr>r_h := \<bar>(r_i rt * 60) + (r_s rt) - (z two - z one)\<bar> div 3600,
              r_i := (\<bar>(r_i rt * 60) + (r_s rt) - (z two - z one)\<bar> mod 3600) div 60,
              r_s := \<bar>(r_i rt * 60) + (r_s rt) - (z two - z one)\<bar> mod 60,
              invert := 1 - invert rt\<rparr>"
proof -
  have nn: "0 \<le> \<bar>(r_i rt * 60) + (r_s rt) - (z two - z one)\<bar>"
    by simp
  show ?thesis
    unfolding tzid_flip_def Let_def
    using assms by (simp only: if_True hms_of_nonneg [OF nn])
qed

lemma hms_decomposition:
  fixes f :: int
  shows "(f div 3600) * 3600 + ((f mod 3600) div 60) * 60 + f mod 60 = f"
proof -
  have "f mod 60 = (f mod 3600) mod 60"
    by (simp add: mod_mod_cancel)
  then have "((f mod 3600) div 60) * 60 + f mod 60 = f mod 3600"
    by simp
  then show ?thesis
    by (simp add: add.assoc)
qed

text \<open>
  C3. In the diff of two instants of one named zone: when the ordered operands are out of
  epoch order (\<open>two.sse < one.sse\<close>), the interval handed to the normaliser has its
  hour, minute and second fields recomputed as the hours/minutes/seconds decomposition of
  \<open>|i*60 + s - (two.z - one.z)|\<close>, where \<open>i\<close> and \<open>s\<close> are the minute and second
  differences, and its invert flag flipped (0 becomes 1 and 1 becomes 0).
\<close>

theorem transition_flip_recomputes_hms:
  assumes "same_tzid a b = Inr True"
    and "sort_old_to_new a b ((timelib_rel_time_ctor X)\<lparr>invert := 0\<rparr>) = Inr (one, two, rt)"
    and "sse two < sse one"
  shows "let flipped = \<bar>(t_i two - t_i one) * 60 + (t_s two - t_s one) - (z two - z one)\<bar>;
             rt' = (tzid_fields X one two rt)
                     \<lparr>r_h := flipped div 3600, r_i := (flipped mod 3600) div 60,
                      r_s := flipped mod 60, invert := (if invert rt = 0 then 1 else 0)\<rparr>
         in timelib_diff X a b =
              Inr (tzid_dst_correct X one two
                     (rel_normalize X (if invert rt' \<noteq> 0 then one else two) rt')) \<and>
            r_h rt' * 3600 + r_i rt' * 60 + r_s rt' = flipped \<and>
            0 \<le> r_h rt' \<and> 0 \<le> r_i rt' \<and> r_i rt' < 60 \<and> 0 \<le> r_s rt' \<and> r_s rt' < 60"
proof -
  let ?f = "\<bar>(t_i two - t_i one) * 60 + (t_s two - t_s one) - (z two - z one)\<bar>"
  let ?u = "tzid_fields X one two rt"
  have nn: "0 \<le> ?f" by simp
  have "invert rt = 0 \<or> invert rt = 1"
    using sort_old_to_new_cases [OF assms(2)] by auto
  then have flipinv: "1 - invert rt = (if invert rt = 0 then 1 else 0)"
    by auto
  have sel: "r_i ?u = t_i two - t_i one" "r_s ?u = t_s two - t_s one" "invert ?u = invert rt"
    by (simp_all add: tzid_fields_def)
  have flip: "tzid_flip one two ?u =
                ?u\<lparr>r_h := ?f div 3600, r_i := (?f mod 3600) div 60, r_s := ?f mod 60,
                   invert := (if invert rt = 0 then 1 else 0)\<rparr>"
    using tzid_flip_out_of_order [OF assms(3), of ?u] by (simp only: sel flipinv)
  have res: "timelib_diff X a b =
               Inr (tzid_dst_correct X one two
                 (rel_normalize X (if invert (tzid_flip one two ?u) \<noteq> 0 then one else two)
                    (tzid_flip one two ?u)))"
    using timelib_diff_shared [OF assms(1,2)] by (simp only: tzid_normalized_def Let_def)
  have bounds: "0 \<le> ?f div 3600" "0 \<le> (?f mod 3600) div 60"
    "(?f mod 3600) div 60 < 60" "0 \<le> ?f mod 60" "?f mod 60 < 60"
    using nn by (simp_all add: div_int_pos_iff)
  have sel': "\<And>h i s v. r_h (?u\<lparr>r_h := h, r_i := i, r_s := s, invert := v\<rparr>) = h"
    "\<And>h i s v. r_i (?u\<lparr>r_h := h, r_i := i, r_s := s, invert := v\<rparr>) = i"
    "\<And>h i s v. r_s (?u\<lparr>r_h := h, r_i := i, r_s := s, invert := v\<rparr>) = s"
    by simp_all
  show ?thesis
    unfolding Let_def
    by (simp only: res flip sel' bounds hms_decomposition simp_thms)
qed

lemmas example_defs =
  example_collaborators_def carry_fields_def civil_def zero_rel_time_def
  TIMELIB_ZONETYPE_ID_def SECS_PER_DAY_def SECS_PER_HOUR_def
  same_tzid_def sort_old_to_new_def swap_times_def
  timelib_diff_days_def tzid_fields_def tzid_normalized_def tzid_flip_def
  tzid_dst_correct_def rel_normalize_def diff_fields_def
  do_range_limit_def c_div_def c_mod_def c_trunc_def c_int_def

theorem transition_flip_recomputes_hms_witness:
  "same_tzid ny_0130_edt ny_0115_est = Inr True \<and>
   sort_old_to_new ny_0130_edt ny_0115_est
     ((timelib_rel_time_ctor example_collaborators)\<lparr>invert := 0\<rparr>) =
     Inr (ny_0115_est, ny_0130_edt, zero_rel_time\<lparr>invert := 1\<rparr>) \<and>
   sse ny_0130_edt < sse ny_0115_est \<and>
   timelib_diff example_collaborators ny_0130_edt ny_0115_est =
     Inr (zero_rel_time\<lparr>r_i := 45\<rparr>)"
proof -
  have h1: "same_tzid ny_0130_edt ny_0115_est = Inr True"
    by (simp add: ny_0130_edt_def ny_0115_est_def example_defs)
  have h2: "sort_old_to_new ny_0130_edt ny_0115_est
              ((timelib_rel_time_ctor example_collaborators)\<lparr>invert := 0\<rparr>) =
            Inr (ny_0115_est, ny_0130_edt, zero_rel_time\<lparr>invert := 1\<rparr>)"
    by (simp add: ny_0130_edt_def ny_0115_est_def example_defs)
  have h3: "sse ny_0130_edt < sse ny_0115_est"
    by (simp add: ny_0130_edt_def ny_0115_est_def civil_def)
  have "timelib_diff example_collaborators ny_0130_edt ny_0115_est =
          Inr (zero_rel_time\<lparr>r_i := 45\<rparr>)"
    using transition_flip_recomputes_hms [OF h1 h2 h3]
    by (simp add: ny_0130_edt_def ny_0115_est_def example_defs Let_def)
  with h1 h2 h3 show ?thesis by simp
qed

lemma tzid_dst_correct_fall_back:
  assumes "dst one = 1" and "dst two = 0" and "tz_info two \<noteq> None"
  shows "tzid_dst_correct X one two n =
           (if sse two - sse one + (z two - z one) < 86400
            then n\<lparr>r_h := r_h n - c_div (z two - z one) 3600,
                   r_i := r_i n - c_div (c_mod (z two - z one) 3600) 60\<rparr>
            else n)"
proof -
  obtain tz where tz: "tz_info two = Some tz"
    using assms(3) by auto
  show ?thesis
    unfolding tzid_dst_correct_def Let_def SECS_PER_DAY_def
    by (simp only: assms(1,2) tz option.case simp_thms if_True)
qed

lemma tzid_dst_correct_spring_failure:
  assumes "dst one = 0" and "dst two = 1"
    and "timelib_get_time_zone_offset_info X (sse two) (tz_info two) = None"
  shows "tzid_dst_correct X one two n = n"
proof -
  have nf: "\<not> (dst one = 1 \<and> dst two = 0)"
    using assms(1) by simp
  show ?thesis
    unfolding tzid_dst_correct_def Let_def
    using assms by (cases "tz_info two") simp_all
qed

lemma tzid_dst_correct_multi_day_failure:
  assumes "\<not> (dst one = 1 \<and> dst two = 0)" and "\<not> (dst one = 0 \<and> dst two = 1)"
    and "sse two - sse one \<ge> 86400"
    and "timelib_get_time_zone_offset_info X (sse two - z two) (tz_info two) = None"
  shows "tzid_dst_correct X one two n = n"
  unfolding tzid_dst_correct_def Let_def SECS_PER_DAY_def
  by (simp only: assms if_False if_True option.case)

text \<open>
  C2. In the diff of two instants of one named zone, in the fall-back case (\<open>one.dst = 1\<close>,
  \<open>two.dst = 0\<close>, \<open>two\<close> has a zone table): when \<open>two.sse - one.sse + (two.z - one.z)\<close>
  is under 86400, the result is the normalised interval with its hour field reduced by
  \<open>(two.z - one.z) / 3600\<close> and its minute field by \<open>((two.z - one.z) % 3600) / 60\<close>
  (C's truncating division and remainder); otherwise the result is the normalised
  interval unchanged.
\<close>

theorem fall_back_correction:
  assumes "same_tzid a b = Inr True"
    and "sort_old_to_new a b ((timelib_rel_time_ctor X)\<lparr>invert := 0\<rparr>) = Inr (one, two, rt)"
    and "dst one = 1" and "dst two = 0" and "tz_info two \<noteq> None"
  shows "timelib_diff X a b =
           Inr (let n = tzid_normalized X one two rt;
                    delta = z two - z one
                in if sse two - sse one + delta < 86400
                   then n\<lparr>r_h := r_h n - c_div delta 3600,
                          r_i := r_i n - c_div (c_mod delta 3600) 60\<rparr>
                   else n)"
  unfolding Let_def
  by (simp only: timelib_diff_shared [OF assms(1,2)] tzid_dst_correct_fall_back [OF assms(3,4,5)])

theorem fall_back_correction_witness:
  "same_tzid ny_0030_edt ny_0130_est = Inr True \<and>
   sort_old_to_new ny_0030_edt ny_0130_est
     ((timelib_rel_time_ctor example_collaborators)\<lparr>invert := 0\<rparr>) =
     Inr (ny_0030_edt, ny_0130_est, zero_rel_time) \<and>
   dst ny_0030_edt = 1 \<and> dst ny_0130_est = 0 \<and> tz_info ny_0130_est \<noteq> None \<and>
   tzid_normalized example_collaborators ny_0030_edt ny_0130_est zero_rel_time =
     zero_rel_time\<lparr>r_h := 1\<rparr> \<and>
   timelib_diff example_collaborators ny_0030_edt ny_0130_est =
     Inr (zero_rel_time\<lparr>r_h := 2\<rparr>) \<and>
   same_tzid ny_0030_edt ny_nov7_0130_est = Inr True \<and>
   dst ny_nov7_0130_est = 0 \<and> tz_info ny_nov7_0130_est \<noteq> None \<and>
   tzid_normalized example_collaborators ny_0030_edt ny_nov7_0130_est zero_rel_time =
     zero_rel_time\<lparr>r_d := 2, r_h := 1, days := 2\<rparr> \<and>
   timelib_diff example_collaborators ny_0030_edt ny_nov7_0130_est =
     Inr (zero_rel_time\<lparr>r_d := 2, r_h := 1, days := 2\<rparr>)"
proof -
  have h1: "same_tzid ny_0030_edt ny_0130_est = Inr True"
    by (simp add: ny_0030_edt_def ny_0130_est_def example_defs)
  have h2: "sort_old_to_new ny_0030_edt ny_0130_est
              ((timelib_rel_time_ctor example_collaborators)\<lparr>invert := 0\<rparr>) =
            Inr (ny_0030_edt, ny_0130_est, zero_rel_time)"
    by (simp add: ny_0030_edt_def ny_0130_est_def example_defs)
  have h3: "dst ny_0030_edt = 1" "dst ny_0130_est = 0" "tz_info ny_0130_est \<noteq> None"
    by (simp_all add: ny_0030_edt_def ny_0130_est_def civil_def)
  have n: "tzid_normalized example_collaborators ny_0030_edt ny_0130_est zero_rel_time =
             zero_rel_time\<lparr>r_h := 1\<rparr>"
    by (simp add: ny_0030_edt_def ny_0130_est_def example_defs Let_def)
  have r: "timelib_diff example_collaborators ny_0030_edt ny_0130_est =
             Inr (zero_rel_time\<lparr>r_h := 2\<rparr>)"
    using fall_back_correction [OF h1 h2 h3]
    by (simp add: n) (simp add: ny_0030_edt_def ny_0130_est_def example_defs)
  have g1: "same_tzid ny_0030_edt ny_nov7_0130_est = Inr True"
    by (simp add: ny_0030_edt_def ny_nov7_0130_est_def example_defs)
  have g2: "sort_old_to_new ny_0030_edt ny_nov7_0130_est
              ((timelib_rel_time_ctor example_collaborators)\<lparr>invert := 0\<rparr>) =
            Inr (ny_0030_edt, ny_nov7_0130_est, zero_rel_time)"
    by (simp add: ny_0030_edt_def ny_nov7_0130_est_def example_defs)
  have g3: "dst ny_nov7_0130_est = 0" "tz_info ny_nov7_0130_est \<noteq> None"
    by (simp_all add: ny_nov7_0130_est_def civil_def)
  have m: "tzid_normalized example_collaborators ny_0030_edt ny_nov7_0130_est zero_rel_time =
             zero_rel_time\<lparr>r_d := 2, r_h := 1, days := 2\<rparr>"
    by (simp add: ny_0030_edt_def ny_nov7_0130_est_def example_defs Let_def)
  have q: "timelib_diff example_collaborators ny_0030_edt ny_nov7_0130_est =
             Inr (zero_rel_time\<lparr>r_d := 2, r_h := 1, days := 2\<rparr>)"
    using fall_back_correction [OF g1 g2 h3(1) g3]
    by (simp add: m) (simp add: ny_0030_edt_def ny_nov7_0130_est_def example_defs)
  show ?thesis
    using h1 h2 h3 n r g1 g3 m q by simp
qed

text \<open>
  C8. In the diff of two instants of one named zone, when the transition lookup reports
  failure in the spring-forward branch (\<open>one.dst = 0\<close>, \<open>two.dst = 1\<close>) or in the
  multi-day branch (no change of the DST flags from 1 to 0 or from 0 to 1, and
  \<open>two.sse - one.sse\<close> at least 86400), the correction is skipped: the diff returns the
  normalised interval as it is, and no error.
\<close>

theorem lookup_failure_skips_correction:
  assumes "same_tzid a b = Inr True"
    and "sort_old_to_new a b ((timelib_rel_time_ctor X)\<lparr>invert := 0\<rparr>) = Inr (one, two, rt)"
    and "(dst one = 0 \<and> dst two = 1 \<and>
          timelib_get_time_zone_offset_info X (sse two) (tz_info two) = None) \<or>
         (\<not> (dst one = 1 \<and> dst two = 0) \<and> \<not> (dst one = 0 \<and> dst two = 1) \<and>
          sse two - sse one \<ge> 86400 \<and>
          timelib_get_time_zone_offset_info X (sse two - z two) (tz_info two) = None)"
  shows "timelib_diff X a b = Inr (tzid_normalized X one two rt)"
proof -
  have "tzid_dst_correct X one two (tzid_normalized X one two rt) =
          tzid_normalized X one two rt"
    using assms(3)
  proof
    assume "dst one = 0 \<and> dst two = 1 \<and>
            timelib_get_time_zone_offset_info X (sse two) (tz_info two) = None"
    then show ?thesis
      by (intro tzid_dst_correct_spring_failure) simp_all
  next
    assume "\<not> (dst one = 1 \<and> dst two = 0) \<and> \<not> (dst one = 0 \<and> dst two = 1) \<and>
            sse two - sse one \<ge> 86400 \<and>
            timelib_get_time_zone_offset_info X (sse two - z two) (tz_info two) = None"
    then show ?thesis
      by (intro tzid_dst_correct_multi_day_failure) simp_all
  qed
  then show ?thesis
    by (simp only: timelib_diff_shared [OF assms(1,2)])
qed

theorem lookup_failure_skips_correction_witness:
  "same_tzid ny_march_0130_est ny_march_0330_edt = Inr True \<and>
   dst ny_march_0130_est = 0 \<and> dst ny_march_0330_edt = 1 \<and>
   timelib_get_time_zone_offset_info example_collaborators (sse ny_march_0330_edt)
     (tz_info ny_march_0330_edt) = None \<and>
   timelib_diff example_collaborators ny_march_0130_est ny_march_0330_edt =
     Inr (zero_rel_time\<lparr>r_h := 2\<rparr>) \<and>
   same_tzid caracas_first caracas_later = Inr True \<and>
   dst caracas_first = 0 \<and> dst caracas_later = 0 \<and>
   sse caracas_later - sse caracas_first \<ge> 86400 \<and>
   timelib_get_time_zone_offset_info example_collaborators
     (sse caracas_later - z caracas_later) (tz_info caracas_later) = None \<and>
   timelib_diff example_collaborators caracas_first caracas_later =
     Inr (zero_rel_time\<lparr>r_d := 2, days := 2\<rparr>)"
proof -
  have s1: "same_tzid ny_march_0130_est ny_march_0330_edt = Inr True"
    by (simp add: ny_march_0130_est_def ny_march_0330_edt_def example_defs)
  have s2: "sort_old_to_new ny_march_0130_est ny_march_0330_edt
              ((timelib_rel_time_ctor example_collaborators)\<lparr>invert := 0\<rparr>) =
            Inr (ny_march_0130_est, ny_march_0330_edt, zero_rel_time)"
    by (simp add: ny_march_0130_est_def ny_march_0330_edt_def example_defs)
  have s3: "dst ny_march_0130_est = 0 \<and> dst ny_march_0330_edt = 1 \<and>
            timelib_get_time_zone_offset_info example_collaborators (sse ny_march_0330_edt)
              (tz_info ny_march_0330_edt) = None"
    by (simp add: ny_march_0130_est_def ny_march_0330_edt_def example_defs)
  have s4: "timelib_diff example_collaborators ny_march_0130_est ny_march_0330_edt =
              Inr (zero_rel_time\<lparr>r_h := 2\<rparr>)"
    using lookup_failure_skips_correction [OF s1 s2 disjI1 [OF s3]]
    by (simp add: ny_march_0130_est_def ny_march_0330_edt_def example_defs Let_def)
  have m1: "same_tzid caracas_first caracas_later = Inr True"
    by (simp add: caracas_first_def caracas_later_def example_defs)
  have m2: "sort_old_to_new caracas_first caracas_later
              ((timelib_rel_time_ctor example_collaborators)\<lparr>invert := 0\<rparr>) =
            Inr (caracas_first, caracas_later, zero_rel_time)"
    by (simp add: caracas_first_def caracas_later_def example_defs)
  have m3: "\<not> (dst caracas_first = 1 \<and> dst caracas_later = 0) \<and>
            \<not> (dst caracas_first = 0 \<and> dst caracas_later = 1) \<and>
            sse caracas_later - sse caracas_first \<ge> 86400 \<and>
            timelib_get_time_zone_offset_info example_collaborators
              (sse caracas_later - z caracas_later) (tz_info caracas_later) = None"
    by (simp add: caracas_first_def caracas_later_def example_defs)
  have m4: "timelib_diff example_collaborators caracas_first caracas_later =
              Inr (zero_rel_time\<lparr>r_d := 2, days := 2\<rparr>)"
    using lookup_failure_skips_correction [OF m1 m2 disjI2 [OF m3]]
    by (simp add: caracas_first_def caracas_later_def example_defs Let_def)
  have d: "dst caracas_first = 0" "dst caracas_later = 0"
    by (simp_all add: caracas_first_def caracas_later_def civil_def)
  show ?thesis
    using s1 s3 s4 m1 m3 m4 d by simp
qed

text \<open>
  The spring-forward scenario of section 8 of the spec: from 01:30 EST to 03:30 EDT on
  2023-03-12 is one hour, not two, once the transition is found.
\<close>

lemma spring_forward_scenario:
  "timelib_diff march_2023_collaborators ny_march_0130_est ny_march_0330_edt =
     Inr (zero_rel_time\<lparr>r_h := 1\<rparr>)"
proof -
  have z: "same_tzid ny_march_0130_est ny_march_0330_edt = Inr True"
    by (simp add: ny_march_0130_est_def ny_march_0330_edt_def example_defs)
  have s: "sort_old_to_new ny_march_0130_est ny_march_0330_edt
             ((timelib_rel_time_ctor march_2023_collaborators)\<lparr>invert := 0\<rparr>) =
           Inr (ny_march_0130_est, ny_march_0330_edt, zero_rel_time)"
    by (simp add: march_2023_collaborators_def ny_march_0130_est_def ny_march_0330_edt_def
        example_defs)
  have n: "tzid_normalized march_2023_collaborators ny_march_0130_est ny_march_0330_edt
             zero_rel_time = zero_rel_time\<lparr>r_h := 2\<rparr>"
    by (simp add: march_2023_collaborators_def ny_march_0130_est_def ny_march_0330_edt_def
        example_defs Let_def)
  have d: "c_div 3600 3600 = 1" "c_div (c_mod 3600 3600) 60 = 0" "c_mod 7200 SECS_PER_DAY = 7200"
    by (simp_all add: c_div_def c_mod_def SECS_PER_DAY_def)
  have c: "tzid_dst_correct march_2023_collaborators ny_march_0130_est ny_march_0330_edt
             (zero_rel_time\<lparr>r_h := 2\<rparr>) = zero_rel_time\<lparr>r_h := 1\<rparr>"
    by (simp add: tzid_dst_correct_def march_2023_collaborators_def
        example_collaborators_def ny_march_0130_est_def ny_march_0330_edt_def civil_def
        zero_rel_time_def Let_def d) (simp add: SECS_PER_DAY_def)
  show ?thesis
    by (simp only: timelib_diff_shared [OF z s] n c)
qed

subsection \<open>The difference without a shared named zone\<close>

lemma timelib_diff_plain:
  assumes "same_tzid a b = Inr False"
    and "sort_old_to_new a b ((timelib_rel_time_ctor X)\<lparr>invert := 0\<rparr>) = Inr (one, two, rt)"
  shows "timelib_diff X a b =
           Inr (rel_normalize X (if invert rt \<noteq> 0 then one else two) (diff_fields X one two rt))"
proof -
  have "invert (diff_fields X one two rt) = invert rt"
    by (simp add: diff_fields_def Let_def)
  then show ?thesis
    using assms by (simp add: timelib_diff_def Let_def)
qed

lemma diff_fields_eq:
  "diff_fields X one two rt =
     rt\<lparr>r_y := t_y two - t_y one, r_m := t_m two - t_m one, r_d := t_d two - t_d one,
        r_h := t_h two - t_h one
               + (if zone_type one \<noteq> TIMELIB_ZONETYPE_ID then dst one else 0)
               - (if zone_type two \<noteq> TIMELIB_ZONETYPE_ID then dst two else 0),
        r_i := t_i two - t_i one, r_s := t_s two - t_s one - z two + z one,
        r_us := t_us two - t_us one, days := timelib_diff_days X one two\<rparr>"
  by (simp add: diff_fields_def Let_def)

lemma timelib_diff_days_lookup_free:
  "timelib_diff_days (X\<lparr>timelib_get_time_zone_offset_info := f\<rparr>) one two =
     timelib_diff_days X one two"
  by (simp add: timelib_diff_days_def)

lemma rel_normalize_lookup_free:
  "rel_normalize (X\<lparr>timelib_get_time_zone_offset_info := f\<rparr>) base rt =
     rel_normalize X base rt"
  by (simp add: rel_normalize_def)

text \<open>
  C9. When the two instants do not share a named zone, \<open>timelib_diff\<close> subtracts the
  fields of the ordered operands and, before normalising, adds \<open>one.dst\<close> to the hour
  field only if \<open>one\<close> is not a named zone, subtracts \<open>two.dst\<close> from it only if
  \<open>two\<close> is not a named zone, and sets the second field to
  \<open>two.s - one.s - two.z + one.z\<close>. The transition lookup plays no part: the result is
  the same whatever the lookup would return.
\<close>

theorem cross_zone_diff:
  assumes "same_tzid a b = Inr False"
    and "sort_old_to_new a b ((timelib_rel_time_ctor X)\<lparr>invert := 0\<rparr>) = Inr (one, two, rt)"
  shows "timelib_diff X a b =
           Inr (rel_normalize X (if invert rt \<noteq> 0 then one else two)
                  (rt\<lparr>r_y := t_y two - t_y one, r_m := t_m two - t_m one,
                      r_d := t_d two - t_d one,
                      r_h := t_h two - t_h one
                             + (if zone_type one \<noteq> TIMELIB_ZONETYPE_ID then dst one else 0)
                             - (if zone_type two \<noteq> TIMELIB_ZONETYPE_ID then dst two else 0),
                      r_i := t_i two - t_i one,
                      r_s := t_s two - t_s one - z two + z one,
                      r_us := t_us two - t_us one,
                      days := timelib_diff_days X one two\<rparr>)) \<and>
         timelib_diff (X\<lparr>timelib_get_time_zone_offset_info := f\<rparr>) a b = timelib_diff X a b"
proof -
  have sorted': "sort_old_to_new a b
                   ((timelib_rel_time_ctor (X\<lparr>timelib_get_time_zone_offset_info := f\<rparr>))
                      \<lparr>invert := 0\<rparr>) = Inr (one, two, rt)"
    using assms(2) by simp
  have "timelib_diff (X\<lparr>timelib_get_time_zone_offset_info := f\<rparr>) a b = timelib_diff X a b"
    unfolding timelib_diff_plain [OF assms(1) sorted'] timelib_diff_plain [OF assms]
    by (simp only: diff_fields_eq timelib_diff_days_lookup_free rel_normalize_lookup_free)
  then show ?thesis
    by (simp only: timelib_diff_plain [OF assms] diff_fields_eq simp_thms)
qed

theorem cross_zone_diff_witness:
  "same_tzid edt_noon plus2_evening = Inr False \<and>
   sort_old_to_new edt_noon plus2_evening
     ((timelib_rel_time_ctor example_collaborators)\<lparr>invert := 0\<rparr>) =
     Inr (edt_noon, plus2_evening, zero_rel_time) \<and>
   timelib_diff example_collaborators edt_noon plus2_evening =
     Inr (zero_rel_time\<lparr>r_d := 1, r_h := 2, days := 1\<rparr>) \<and>
   timelib_diff (example_collaborators\<lparr>timelib_get_time_zone_offset_info :=
                   (\<lambda>ts tz. Some (0, 0))\<rparr>) edt_noon plus2_evening =
     Inr (zero_rel_time\<lparr>r_d := 1, r_h := 2, days := 1\<rparr>)"
proof -
  have h1: "same_tzid edt_noon plus2_evening = Inr False"
    by (simp add: edt_noon_def plus2_evening_def example_defs)
  have h2: "sort_old_to_new edt_noon plus2_evening
              ((timelib_rel_time_ctor example_collaborators)\<lparr>invert := 0\<rparr>) =
            Inr (edt_noon, plus2_evening, zero_rel_time)"
    by (simp add: edt_noon_def plus2_evening_def example_defs)
  have d: "timelib_diff_days example_collaborators edt_noon plus2_evening = 1"
    by (simp add: edt_noon_def plus2_evening_def example_defs)
  have r: "timelib_diff example_collaborators edt_noon plus2_evening =
             Inr (zero_rel_time\<lparr>r_d := 1, r_h := 2, days := 1\<rparr>)"
    using cross_zone_diff [OF h1 h2, THEN conjunct1]
    by (simp add: d) (simp add: edt_noon_def plus2_evening_def example_defs)
  show ?thesis
    using h1 h2 r cross_zone_diff [OF h1 h2, THEN conjunct2, of "\<lambda>ts tz. Some (0, 0)"]
    by simp
qed

subsection \<open>The day count\<close>

lemma c_trunc_days: "c_trunc \<bar>real_of_int \<lfloor>real_of_int k\<rfloor> / 86400\<bar> = \<bar>k\<bar> div 86400"
proof -
  have "\<bar>real_of_int \<lfloor>real_of_int k\<rfloor> / 86400\<bar> = real_of_int \<bar>k\<bar> / real_of_int 86400"
    by simp
  moreover have "0 \<le> real_of_int \<bar>k\<bar> / real_of_int 86400"
    by simp
  ultimately have "c_trunc \<bar>real_of_int \<lfloor>real_of_int k\<rfloor> / 86400\<bar> =
                     \<lfloor>real_of_int \<bar>k\<bar> / real_of_int 86400\<rfloor>"
    by (simp only: c_trunc_def if_True)
  then show ?thesis
    by (simp only: floor_divide_of_int_eq)
qed

lemma c_int_id: "- 2147483648 \<le> x \<Longrightarrow> x < 2147483648 \<Longrightarrow> c_int x = x"
  by (simp add: c_int_def mod_pos_pos_trivial)

lemma timelib_diff_days_eq:
  "timelib_diff_days X one two =
     (if timelib_same_timezone X one two \<noteq> 0
      then
        let later = (if timelib_time_compare X one two < 0 then two else one);
            earlier = (if timelib_time_compare X one two < 0 then one else two);
            n = c_int \<bar>timelib_epoch_days_from_time X one
                       - timelib_epoch_days_from_time X two\<bar>
        in if timelib_hmsf_to_decimal_hour X (t_h later) (t_i later) (t_s later) (t_us later)
                < timelib_hmsf_to_decimal_hour X (t_h earlier) (t_i earlier) (t_s earlier)
                    (t_us earlier) \<and> n > 0
           then n - 1 else n
      else c_int (\<bar>sse two - sse one\<bar> div 86400))"
proof (cases "timelib_same_timezone X one two \<noteq> 0")
  case True
  then show ?thesis
    by (cases "timelib_time_compare X one two < 0")
      (simp_all add: timelib_diff_days_def Let_def)
next
  case False
  have "timelib_diff_days X one two =
          c_int (c_trunc \<bar>real_of_int \<lfloor>real_of_int (sse one - sse two)\<rfloor> / 86400\<bar>)"
    using False by (simp only: timelib_diff_days_def if_False)
  also have "\<dots> = c_int (\<bar>sse one - sse two\<bar> div 86400)"
    by (simp only: c_trunc_days)
  also have "\<bar>sse one - sse two\<bar> = \<bar>sse two - sse one\<bar>"
    by simp
  finally show ?thesis
    using False by (simp only: if_False)
qed

lemma days_rel_normalize: "days (rel_normalize X base rt) = days rt"
  by (simp add: rel_normalize_def Let_def)

lemma invert_rel_normalize: "invert (rel_normalize X base rt) = invert rt"
  by (simp add: rel_normalize_def Let_def)

lemma days_tzid_flip: "days (tzid_flip one two rt) = days rt"
  by (simp add: tzid_flip_def Let_def)

lemma days_tzid_fields: "days (tzid_fields X one two rt) = timelib_diff_days X one two"
  by (simp add: tzid_fields_def)

lemma days_diff_fields: "days (diff_fields X one two rt) = timelib_diff_days X one two"
  by (simp add: diff_fields_def Let_def)

text \<open>
  Which correction applies is decided by the operands alone; the interval only
  receives it.
\<close>

lemma tzid_dst_correct_cases:
  "(\<forall>rt. tzid_dst_correct X one two rt = rt) \<or>
   (\<forall>rt. tzid_dst_correct X one two rt =
      rt\<lparr>r_h := r_h rt - c_div (z two - z one) 3600,
         r_i := r_i rt - c_div (c_mod (z two - z one) 3600) 60\<rparr>) \<or>
   (\<forall>rt. tzid_dst_correct X one two rt = rt\<lparr>r_d := r_d rt - 1, r_h := 24\<rparr>)"
proof -
  consider (fall) "dst one = 1 \<and> dst two = 0"
    | (spring) "\<not> (dst one = 1 \<and> dst two = 0)" "dst one = 0 \<and> dst two = 1"
    | (multi) "\<not> (dst one = 1 \<and> dst two = 0)" "\<not> (dst one = 0 \<and> dst two = 1)"
        "sse two - sse one \<ge> SECS_PER_DAY"
    | (none) "\<not> (dst one = 1 \<and> dst two = 0)" "\<not> (dst one = 0 \<and> dst two = 1)"
        "\<not> sse two - sse one \<ge> SECS_PER_DAY"
    by blast
  then show ?thesis
  proof cases
    case fall
    show ?thesis
    proof (cases "tz_info two \<noteq> None \<and> (sse two - sse one + (z two - z one)) < SECS_PER_DAY")
      case True
      then have "\<forall>rt. tzid_dst_correct X one two rt =
                   rt\<lparr>r_h := r_h rt - c_div (z two - z one) 3600,
                      r_i := r_i rt - c_div (c_mod (z two - z one) 3600) 60\<rparr>"
        using fall by (auto simp: tzid_dst_correct_def Let_def)
      then show ?thesis by blast
    next
      case False
      then have "\<forall>rt. tzid_dst_correct X one two rt = rt"
        using fall by (cases "tz_info two") (simp_all add: tzid_dst_correct_def Let_def)
      then show ?thesis by blast
    qed
  next
    case spring
    show ?thesis
    proof (cases "tz_info two = None \<or>
        timelib_get_time_zone_offset_info X (sse two) (tz_info two) = None")
      case True
      then have "\<forall>rt. tzid_dst_correct X one two rt = rt"
        using spring by (cases "tz_info two") (auto simp: tzid_dst_correct_def Let_def)
      then show ?thesis by blast
    next
      case False
      then obtain tz off tt where tz: "tz_info two = Some tz"
        and lk: "timelib_get_time_zone_offset_info X (sse two) (tz_info two) = Some (off, tt)"
        by auto
      define c where
        "c \<longleftrightarrow> \<not> ((sse one + SECS_PER_DAY > tt) \<and>
                 (sse one + SECS_PER_DAY \<le> (tt + (z two - z one)))) \<and>
             sse two \<ge> tt \<and>
             c_mod (sse two - sse one + (z two - z one)) SECS_PER_DAY > (sse two - tt)"
      have e: "\<forall>rt. tzid_dst_correct X one two rt =
                 (if c then rt\<lparr>r_h := r_h rt - c_div (z two - z one) 3600,
                              r_i := r_i rt - c_div (c_mod (z two - z one) 3600) 60\<rparr>
                  else rt)"
        unfolding c_def using spring tz lk by (simp add: tzid_dst_correct_def Let_def)
      show ?thesis
        by (cases c) (simp_all only: e if_True if_False simp_thms)
    qed
  next
    case multi
    show ?thesis
    proof (cases "timelib_get_time_zone_offset_info X (sse two - z two) (tz_info two)")
      case None
      have "\<forall>rt. tzid_dst_correct X one two rt = rt"
        unfolding tzid_dst_correct_def Let_def
        by (simp only: multi None if_True if_False option.case simp_thms)
      then show ?thesis by blast
    next
      case (Some p)
      obtain off tt where p: "p = (off, tt)" by (cases p)
      show ?thesis
      proof (cases "sse two \<ge> tt - (z one - off) \<and> sse two < tt")
        case True
        have "\<forall>rt. tzid_dst_correct X one two rt = rt\<lparr>r_d := r_d rt - 1, r_h := 24\<rparr>"
          unfolding tzid_dst_correct_def Let_def
          by (simp only: multi Some p True if_True if_False option.case prod.case simp_thms)
        then show ?thesis by blast
      next
        case False
        have "\<forall>rt. tzid_dst_correct X one two rt = rt"
          unfolding tzid_dst_correct_def Let_def
          by (simp only: multi Some p False if_True if_False option.case prod.case simp_thms)
        then show ?thesis by blast
      qed
    qed
  next
    case none
    have "\<forall>rt. tzid_dst_correct X one two rt = rt"
      unfolding tzid_dst_correct_def Let_def
      by (simp only: none if_False simp_thms)
    then show ?thesis by blast
  qed
qed

lemma days_tzid_dst_correct: "days (tzid_dst_correct X one two rt) = days rt"
  using tzid_dst_correct_cases [of X one two] by (elim disjE) simp_all

lemma invert_tzid_dst_correct: "invert (tzid_dst_correct X one two rt) = invert rt"
  using tzid_dst_correct_cases [of X one two] by (elim disjE) simp_all

lemma days_timelib_diff:
  assumes "same_tzid a b = Inr shared"
    and "sort_old_to_new a b ((timelib_rel_time_ctor X)\<lparr>invert := 0\<rparr>) = Inr (one, two, rt)"
  shows "\<exists>r. timelib_diff X a b = Inr r \<and> days r = timelib_diff_days X one two"
proof (cases shared)
  case True
  then show ?thesis
    using timelib_diff_shared [OF _ assms(2)] assms(1)
    by (simp add: days_tzid_dst_correct tzid_normalized_def Let_def days_rel_normalize
        days_tzid_flip days_tzid_fields)
next
  case False
  then show ?thesis
    using timelib_diff_plain [OF _ assms(2)] assms(1)
    by (simp add: days_rel_normalize days_diff_fields)
qed

text \<open>
  C4 as stated fails where the day count does not fit the 32-bit \<open>int\<close> that
  \<open>timelib_diff_days\<close> returns. The epoch and midnight of 5881580-07-12, both at offset
  +00:00, are in the same zone and \<open>2^31\<close> epoch days apart, with equal times of day;
  line 211 narrows the count, and the \<open>days\<close> field of the diff is \<open>-2147483648\<close>.
\<close>

theorem diff_days_width_counterexample:
  "timelib_same_timezone example_collaborators epoch_utc far_utc \<noteq> 0 \<and>
   \<bar>timelib_epoch_days_from_time example_collaborators epoch_utc
     - timelib_epoch_days_from_time example_collaborators far_utc\<bar> = 2147483648 \<and>
   timelib_diff example_collaborators epoch_utc far_utc =
     Inr (zero_rel_time\<lparr>r_y := 5879610, r_m := 6, r_d := 11, days := - 2147483648\<rparr>)"
proof -
  have z: "same_tzid epoch_utc far_utc = Inr False"
    by (simp add: epoch_utc_def far_utc_def example_defs)
  have s: "sort_old_to_new epoch_utc far_utc
             ((timelib_rel_time_ctor example_collaborators)\<lparr>invert := 0\<rparr>) =
           Inr (epoch_utc, far_utc, zero_rel_time)"
    by (simp add: epoch_utc_def far_utc_def example_defs)
  have t: "timelib_same_timezone example_collaborators epoch_utc far_utc \<noteq> 0"
    by (simp add: epoch_utc_def far_utc_def example_defs)
  have e: "\<bar>timelib_epoch_days_from_time example_collaborators epoch_utc
            - timelib_epoch_days_from_time example_collaborators far_utc\<bar> = 2147483648"
    by (simp add: epoch_utc_def far_utc_def example_defs)
  have d: "timelib_diff_days example_collaborators epoch_utc far_utc = - 2147483648"
    by (simp add: epoch_utc_def far_utc_def example_defs)
  have r: "timelib_diff example_collaborators epoch_utc far_utc =
             Inr (zero_rel_time\<lparr>r_y := 5879610, r_m := 6, r_d := 11, days := - 2147483648\<rparr>)"
    by (simp add: timelib_diff_plain [OF z s] diff_fields_eq d)
      (simp add: epoch_utc_def far_utc_def example_defs)
  show ?thesis
    using t e r by simp
qed

text \<open>
  C4, as the code has it. The \<open>days\<close> field of the interval that \<open>timelib_diff\<close>
  returns, for the ordered operands \<open>one\<close> and \<open>two\<close>. If \<open>timelib_same_timezone\<close>
  holds of them, it is the absolute difference of their epoch-day numbers, narrowed to a
  32-bit \<open>int\<close>, less one exactly when the time of day of the later instant (as a
  decimal hour) is strictly below that of the earlier instant and the narrowed count is
  positive. Whenever the count fits an \<open>int\<close> (it is below \<open>2^31\<close>), \<open>days\<close> is as the
  claim says: that difference, less one under the same condition, for instants of the
  same zone, and otherwise \<open>|two.sse - one.sse|\<close> divided by 86400 and rounded down.
  Later and earlier are as \<open>timelib_time_compare\<close> decides.
\<close>

theorem diff_days_field:
  assumes "same_tzid a b = Inr shared"
    and "sort_old_to_new a b ((timelib_rel_time_ctor X)\<lparr>invert := 0\<rparr>) = Inr (one, two, rt)"
  shows "\<exists>r. timelib_diff X a b = Inr r \<and>
           (timelib_same_timezone X one two \<noteq> 0 \<longrightarrow>
              days r =
                (let later = (if timelib_time_compare X one two < 0 then two else one);
                     earlier = (if timelib_time_compare X one two < 0 then one else two);
                     n = c_int \<bar>timelib_epoch_days_from_time X one
                                - timelib_epoch_days_from_time X two\<bar>
                 in if timelib_hmsf_to_decimal_hour X (t_h later) (t_i later) (t_s later)
                         (t_us later)
                       < timelib_hmsf_to_decimal_hour X (t_h earlier) (t_i earlier)
                           (t_s earlier) (t_us earlier) \<and> n > 0
                    then n - 1 else n)) \<and>
           ((if timelib_same_timezone X one two \<noteq> 0
             then \<bar>timelib_epoch_days_from_time X one
                   - timelib_epoch_days_from_time X two\<bar> < 2147483648
             else \<bar>sse two - sse one\<bar> div 86400 < 2147483648) \<longrightarrow>
              days r =
                (if timelib_same_timezone X one two \<noteq> 0
                 then
                   let later = (if timelib_time_compare X one two < 0 then two else one);
                       earlier = (if timelib_time_compare X one two < 0 then one else two);
                       n = \<bar>timelib_epoch_days_from_time X one
                            - timelib_epoch_days_from_time X two\<bar>
                   in if timelib_hmsf_to_decimal_hour X (t_h later) (t_i later) (t_s later)
                           (t_us later)
                         < timelib_hmsf_to_decimal_hour X (t_h earlier) (t_i earlier)
                             (t_s earlier) (t_us earlier) \<and> n > 0
                      then n - 1 else n
                 else \<bar>sse two - sse one\<bar> div 86400))"
proof -
  obtain r where r: "timelib_diff X a b = Inr r" and d: "days r = timelib_diff_days X one two"
    using days_timelib_diff [OF assms] by blast
  have narrowed: "timelib_same_timezone X one two \<noteq> 0 \<longrightarrow>
      days r =
        (let later = (if timelib_time_compare X one two < 0 then two else one);
             earlier = (if timelib_time_compare X one two < 0 then one else two);
             n = c_int \<bar>timelib_epoch_days_from_time X one
                        - timelib_epoch_days_from_time X two\<bar>
         in if timelib_hmsf_to_decimal_hour X (t_h later) (t_i later) (t_s later)
                 (t_us later)
               < timelib_hmsf_to_decimal_hour X (t_h earlier) (t_i earlier)
                   (t_s earlier) (t_us earlier) \<and> n > 0
            then n - 1 else n)"
  proof (intro impI)
    assume same: "timelib_same_timezone X one two \<noteq> 0"
    have "timelib_diff_days X one two =
        (let later = (if timelib_time_compare X one two < 0 then two else one);
             earlier = (if timelib_time_compare X one two < 0 then one else two);
             n = c_int \<bar>timelib_epoch_days_from_time X one
                        - timelib_epoch_days_from_time X two\<bar>
         in if timelib_hmsf_to_decimal_hour X (t_h later) (t_i later) (t_s later)
                 (t_us later)
               < timelib_hmsf_to_decimal_hour X (t_h earlier) (t_i earlier)
                   (t_s earlier) (t_us earlier) \<and> n > 0
            then n - 1 else n)"
      using same timelib_diff_days_eq [of X one two] by simp
    then show "days r =
        (let later = (if timelib_time_compare X one two < 0 then two else one);
             earlier = (if timelib_time_compare X one two < 0 then one else two);
             n = c_int \<bar>timelib_epoch_days_from_time X one
                        - timelib_epoch_days_from_time X two\<bar>
         in if timelib_hmsf_to_decimal_hour X (t_h later) (t_i later) (t_s later)
                 (t_us later)
               < timelib_hmsf_to_decimal_hour X (t_h earlier) (t_i earlier)
                   (t_s earlier) (t_us earlier) \<and> n > 0
            then n - 1 else n)"
      by (simp only: d)
  qed
  have fits: "(if timelib_same_timezone X one two \<noteq> 0
             then \<bar>timelib_epoch_days_from_time X one
                   - timelib_epoch_days_from_time X two\<bar> < 2147483648
             else \<bar>sse two - sse one\<bar> div 86400 < 2147483648) \<longrightarrow>
      days r =
        (if timelib_same_timezone X one two \<noteq> 0
         then
           let later = (if timelib_time_compare X one two < 0 then two else one);
               earlier = (if timelib_time_compare X one two < 0 then one else two);
               n = \<bar>timelib_epoch_days_from_time X one
                    - timelib_epoch_days_from_time X two\<bar>
           in if timelib_hmsf_to_decimal_hour X (t_h later) (t_i later) (t_s later)
                   (t_us later)
                 < timelib_hmsf_to_decimal_hour X (t_h earlier) (t_i earlier)
                     (t_s earlier) (t_us earlier) \<and> n > 0
              then n - 1 else n
         else \<bar>sse two - sse one\<bar> div 86400)"
  proof (cases "timelib_same_timezone X one two \<noteq> 0")
    case True
    show ?thesis
    proof (intro impI)
      assume "if timelib_same_timezone X one two \<noteq> 0
              then \<bar>timelib_epoch_days_from_time X one
                    - timelib_epoch_days_from_time X two\<bar> < 2147483648
              else \<bar>sse two - sse one\<bar> div 86400 < 2147483648"
      then have "\<bar>timelib_epoch_days_from_time X one
                  - timelib_epoch_days_from_time X two\<bar> < 2147483648"
        using True by simp
      then have "c_int \<bar>timelib_epoch_days_from_time X one
                        - timelib_epoch_days_from_time X two\<bar>
                 = \<bar>timelib_epoch_days_from_time X one - timelib_epoch_days_from_time X two\<bar>"
        by (intro c_int_id) simp_all
      then show "days r =
        (if timelib_same_timezone X one two \<noteq> 0
         then
           let later = (if timelib_time_compare X one two < 0 then two else one);
               earlier = (if timelib_time_compare X one two < 0 then one else two);
               n = \<bar>timelib_epoch_days_from_time X one
                    - timelib_epoch_days_from_time X two\<bar>
           in if timelib_hmsf_to_decimal_hour X (t_h later) (t_i later) (t_s later)
                   (t_us later)
                 < timelib_hmsf_to_decimal_hour X (t_h earlier) (t_i earlier)
                     (t_s earlier) (t_us earlier) \<and> n > 0
              then n - 1 else n
         else \<bar>sse two - sse one\<bar> div 86400)"
        using True by (simp add: d timelib_diff_days_eq)
    qed
  next
    case False
    show ?thesis
    proof (intro impI)
      assume "if timelib_same_timezone X one two \<noteq> 0
              then \<bar>timelib_epoch_days_from_time X one
                    - timelib_epoch_days_from_time X two\<bar> < 2147483648
              else \<bar>sse two - sse one\<bar> div 86400 < 2147483648"
      then have lt: "\<bar>sse two - sse one\<bar> div 86400 < 2147483648"
        using False by simp
      have "0 \<le> \<bar>sse two - sse one\<bar> div 86400"
        by (simp add: div_int_pos_iff)
      then have "c_int (\<bar>sse two - sse one\<bar> div 86400) = \<bar>sse two - sse one\<bar> div 86400"
        using lt by (intro c_int_id) simp_all
      then show "days r =
        (if timelib_same_timezone X one two \<noteq> 0
         then
           let later = (if timelib_time_compare X one two < 0 then two else one);
               earlier = (if timelib_time_compare X one two < 0 then one else two);
               n = \<bar>timelib_epoch_days_from_time X one
                    - timelib_epoch_days_from_time X two\<bar>
           in if timelib_hmsf_to_decimal_hour X (t_h later) (t_i later) (t_s later)
                   (t_us later)
                 < timelib_hmsf_to_decimal_hour X (t_h earlier) (t_i earlier)
                     (t_s earlier) (t_us earlier) \<and> n > 0
              then n - 1 else n
         else \<bar>sse two - sse one\<bar> div 86400)"
        using False by (simp add: d timelib_diff_days_eq)
    qed
  qed
  show ?thesis
    using r narrowed fits by blast
qed

theorem diff_days_field_witness:
  "same_tzid caracas_second caracas_dec11_0100 = Inr True \<and>
   sort_old_to_new caracas_second caracas_dec11_0100
     ((timelib_rel_time_ctor example_collaborators)\<lparr>invert := 0\<rparr>) =
     Inr (caracas_second, caracas_dec11_0100, zero_rel_time) \<and>
   timelib_same_timezone example_collaborators caracas_second caracas_dec11_0100 \<noteq> 0 \<and>
   \<bar>timelib_epoch_days_from_time example_collaborators caracas_second
     - timelib_epoch_days_from_time example_collaborators caracas_dec11_0100\<bar> < 2147483648 \<and>
   timelib_diff example_collaborators caracas_second caracas_dec11_0100 =
     Inr (zero_rel_time\<lparr>r_d := 1, r_h := 22, r_i := 15, days := 1\<rparr>) \<and>
   same_tzid edt_noon plus2_evening = Inr False \<and>
   sort_old_to_new edt_noon plus2_evening
     ((timelib_rel_time_ctor example_collaborators)\<lparr>invert := 0\<rparr>) =
     Inr (edt_noon, plus2_evening, zero_rel_time) \<and>
   timelib_same_timezone example_collaborators edt_noon plus2_evening = 0 \<and>
   \<bar>sse plus2_evening - sse edt_noon\<bar> div 86400 < 2147483648 \<and>
   (\<exists>r. timelib_diff example_collaborators edt_noon plus2_evening = Inr r \<and> days r = 1)"
proof -
  have h1: "same_tzid caracas_second caracas_dec11_0100 = Inr True"
    by (simp add: caracas_second_def caracas_dec11_0100_def example_defs)
  have h2: "sort_old_to_new caracas_second caracas_dec11_0100
              ((timelib_rel_time_ctor example_collaborators)\<lparr>invert := 0\<rparr>) =
            Inr (caracas_second, caracas_dec11_0100, zero_rel_time)"
    by (simp add: caracas_second_def caracas_dec11_0100_def example_defs)
  have h3: "timelib_same_timezone example_collaborators caracas_second caracas_dec11_0100 \<noteq> 0"
    "\<bar>timelib_epoch_days_from_time example_collaborators caracas_second
      - timelib_epoch_days_from_time example_collaborators caracas_dec11_0100\<bar> < 2147483648"
    by (simp_all add: caracas_second_def caracas_dec11_0100_def example_defs)
  have r1: "timelib_diff example_collaborators caracas_second caracas_dec11_0100 =
              Inr (zero_rel_time\<lparr>r_d := 1, r_h := 22, r_i := 15, days := 1\<rparr>)"
    by (simp add: timelib_diff_shared [OF h1 h2])
      (simp add: caracas_second_def caracas_dec11_0100_def example_defs Let_def)
  have g1: "same_tzid edt_noon plus2_evening = Inr False"
    by (simp add: edt_noon_def plus2_evening_def example_defs)
  have g2: "sort_old_to_new edt_noon plus2_evening
              ((timelib_rel_time_ctor example_collaborators)\<lparr>invert := 0\<rparr>) =
            Inr (edt_noon, plus2_evening, zero_rel_time)"
    by (simp add: edt_noon_def plus2_evening_def example_defs)
  have g3: "timelib_same_timezone example_collaborators edt_noon plus2_evening = 0"
    "\<bar>sse plus2_evening - sse edt_noon\<bar> div 86400 < 2147483648"
    by (simp_all add: edt_noon_def plus2_evening_def example_defs)
  have r2: "\<exists>r. timelib_diff example_collaborators edt_noon plus2_evening = Inr r \<and>
                days r = 1"
    using diff_days_field [OF g1 g2] g3
    by (simp add: edt_noon_def plus2_evening_def example_defs)
  have "\<exists>r. timelib_diff example_collaborators caracas_second caracas_dec11_0100 = Inr r \<and>
             days r = 1"
    using diff_days_field [OF h1 h2] h3
    by (simp add: caracas_second_def caracas_dec11_0100_def example_defs Let_def)
  with h1 h2 h3 r1 g1 g2 g3 r2 show ?thesis by simp
qed

subsection \<open>Exchanging the operands\<close>

lemma first_difference_later_asym:
  "first_difference_later xs ys \<Longrightarrow> \<not> first_difference_later ys xs"
  by (induction xs ys rule: first_difference_later.induct) (auto split: if_splits)

lemma first_is_later_asym: "first_is_later shared a b \<Longrightarrow> \<not> first_is_later shared b a"
  by (auto simp: first_is_later_def dest: first_difference_later_asym split: if_splits)

lemma tzid_fields_invert:
  "tzid_fields X one two (rt\<lparr>invert := v\<rparr>) = (tzid_fields X one two rt)\<lparr>invert := v\<rparr>"
  by (simp add: tzid_fields_def)

lemma diff_fields_invert:
  "diff_fields X one two (rt\<lparr>invert := v\<rparr>) = (diff_fields X one two rt)\<lparr>invert := v\<rparr>"
  by (simp add: diff_fields_def Let_def)

lemma tzid_flip_invert:
  "tzid_flip one two (rt\<lparr>invert := v\<rparr>) =
     (tzid_flip one two rt)\<lparr>invert := (if sse two < sse one then 1 - v else v)\<rparr>"
  by (simp add: tzid_flip_def Let_def)

lemma invert_tzid_flip:
  "invert (tzid_flip one two rt) = (if sse two < sse one then 1 - invert rt else invert rt)"
  by (simp add: tzid_flip_def Let_def)

lemma magnitudes_invert: "magnitudes (rt\<lparr>invert := v\<rparr>) = magnitudes rt"
  by (simp add: magnitudes_def)

lemma magnitudes_tzid_dst_correct:
  assumes "magnitudes n' = magnitudes n"
  shows "magnitudes (tzid_dst_correct X one two n') = magnitudes (tzid_dst_correct X one two n)"
  using tzid_dst_correct_cases [of X one two] assms
  by (elim disjE) (simp_all add: magnitudes_def)

text \<open>
  C1 as stated fails where the comparison ties. In America/Caracas the wall-clock time
  2007-12-09 02:45 occurred twice, at offsets -4:00 and -4:30, without a DST flag. The
  two instants have equal calendar fields, so \<open>sort_old_to_new\<close> swaps in neither
  direction. From the first to the second occurrence the diff is zero; from the second to
  the first the operands are out of epoch order, lines 106-114 recompute the fields and
  the diff is 30 minutes, inverted.
\<close>

theorem diff_antisymmetry_counterexample:
  "same_tzid caracas_first caracas_second = Inr True \<and>
   timelib_diff example_collaborators caracas_first caracas_second = Inr zero_rel_time \<and>
   timelib_diff example_collaborators caracas_second caracas_first =
     Inr (zero_rel_time\<lparr>r_i := 30, invert := 1\<rparr>) \<and>
   magnitudes zero_rel_time \<noteq> magnitudes (zero_rel_time\<lparr>r_i := 30, invert := 1\<rparr>)"
proof -
  have z: "same_tzid caracas_first caracas_second = Inr True"
    by (simp add: caracas_first_def caracas_second_def example_defs)
  have s1: "sort_old_to_new caracas_first caracas_second
              ((timelib_rel_time_ctor example_collaborators)\<lparr>invert := 0\<rparr>) =
            Inr (caracas_first, caracas_second, zero_rel_time)"
    by (simp add: caracas_first_def caracas_second_def example_defs)
  have s2: "sort_old_to_new caracas_second caracas_first
              ((timelib_rel_time_ctor example_collaborators)\<lparr>invert := 0\<rparr>) =
            Inr (caracas_second, caracas_first, zero_rel_time)"
    by (simp add: caracas_first_def caracas_second_def example_defs)
  have r1: "timelib_diff example_collaborators caracas_first caracas_second = Inr zero_rel_time"
    by (simp add: timelib_diff_shared [OF z s1])
      (simp add: caracas_first_def caracas_second_def example_defs Let_def)
  have r2: "timelib_diff example_collaborators caracas_second caracas_first =
              Inr (zero_rel_time\<lparr>r_i := 30, invert := 1\<rparr>)"
    by (simp add: timelib_diff_shared [OF z [unfolded same_tzid_sym [of caracas_first]] s2])
      (simp add: caracas_first_def caracas_second_def example_defs Let_def)
  have m: "magnitudes zero_rel_time \<noteq> magnitudes (zero_rel_time\<lparr>r_i := 30, invert := 1\<rparr>)"
    by (simp add: magnitudes_def zero_rel_time_def)
  show ?thesis
    using z r1 r2 m by simp
qed

text \<open>
  C1, as the code has it. Let \<open>a\<close> be strictly later than \<open>b\<close> under the comparison
  that orders the operands. Then \<open>diff(b, a)\<close> and \<open>diff(a, b)\<close> both work on the
  ordered pair \<open>(b, a)\<close>: the intervals \<open>u\<close> and \<open>u'\<close> that they hand to the
  normaliser have the same year, month, day, hour, minute, second, microsecond and
  days fields and opposite invert flags; the normaliser is based on \<open>b\<close> where the flag
  is set and on \<open>a\<close> where it is not; the same DST correction follows (shared named
  zone only). The results have equal days fields and opposite invert flags, and if the
  normaliser returns the same magnitudes for both, so does the diff.
\<close>

theorem diff_exchange_strict:
  assumes "same_tzid a b = Inr shared" and "first_is_later shared a b"
  shows "let rt0 = (timelib_rel_time_ctor X)\<lparr>invert := 0\<rparr>;
             u = (if shared then tzid_flip b a (tzid_fields X b a rt0)
                  else diff_fields X b a rt0);
             u' = u\<lparr>invert := 1 - invert u\<rparr>;
             n = rel_normalize X (if invert u \<noteq> 0 then b else a) u;
             n' = rel_normalize X (if invert u' \<noteq> 0 then b else a) u';
             r = (if shared then tzid_dst_correct X b a n else n);
             r' = (if shared then tzid_dst_correct X b a n' else n')
         in timelib_diff X b a = Inr r \<and> timelib_diff X a b = Inr r' \<and>
            magnitudes u' = magnitudes u \<and> (invert u = 0 \<or> invert u = 1) \<and>
            days r' = days r \<and> invert r' = 1 - invert r \<and>
            (magnitudes n' = magnitudes n \<longrightarrow> magnitudes r' = magnitudes r)"
proof -
  define rt0 where "rt0 = (timelib_rel_time_ctor X)\<lparr>invert := 0\<rparr>"
  define rt1 where "rt1 = (timelib_rel_time_ctor X)\<lparr>invert := 1\<rparr>"
  define u where "u = (if shared then tzid_flip b a (tzid_fields X b a rt0)
                       else diff_fields X b a rt0)"
  define u' where "u' = u\<lparr>invert := 1 - invert u\<rparr>"
  define n where "n = rel_normalize X (if invert u \<noteq> 0 then b else a) u"
  define n' where "n' = rel_normalize X (if invert u' \<noteq> 0 then b else a) u'"
  define r where "r = (if shared then tzid_dst_correct X b a n else n)"
  define r' where "r' = (if shared then tzid_dst_correct X b a n' else n')"
  have rt1: "rt1 = rt0\<lparr>invert := 1\<rparr>"
    by (simp add: rt0_def rt1_def)
  have inv0: "invert rt0 = 0"
    by (simp add: rt0_def)
  have ba: "same_tzid b a = Inr shared"
    using assms(1) by (simp add: same_tzid_sym)
  have nl: "\<not> first_is_later shared b a"
    by (rule first_is_later_asym [OF assms(2)])
  have sort_ba: "sort_old_to_new b a ((timelib_rel_time_ctor X)\<lparr>invert := 0\<rparr>) = Inr (b, a, rt0)"
    using sort_old_to_new_eq [OF ba, of rt0] nl by (simp add: rt0_def)
  have sort_ab: "sort_old_to_new a b ((timelib_rel_time_ctor X)\<lparr>invert := 0\<rparr>) = Inr (b, a, rt1)"
    using sort_old_to_new_eq [OF assms(1), of rt0] assms(2) by (simp add: rt0_def rt1_def)
  have inv_u: "invert u = (if shared \<and> sse a < sse b then 1 else 0)"
    by (simp add: u_def invert_tzid_flip tzid_fields_def diff_fields_def Let_def inv0)
  have u1: "(if shared then tzid_flip b a (tzid_fields X b a rt1) else diff_fields X b a rt1) = u'"
    unfolding u'_def inv_u
    by (simp add: u_def rt1 tzid_fields_invert tzid_flip_invert diff_fields_invert)
  have res_ba: "timelib_diff X b a = Inr r"
  proof (cases shared)
    case True
    then show ?thesis
      using timelib_diff_shared [OF _ sort_ba] ba
      by (simp add: r_def n_def u_def tzid_normalized_def Let_def)
  next
    case False
    then show ?thesis
      using timelib_diff_plain [OF _ sort_ba] ba
      by (simp add: r_def n_def u_def diff_fields_def Let_def inv0)
  qed
  have res_ab: "timelib_diff X a b = Inr r'"
  proof (cases shared)
    case True
    then have "tzid_flip b a (tzid_fields X b a rt1) = u'"
      using u1 by simp
    then show ?thesis
      using timelib_diff_shared [OF _ sort_ab] assms(1) True
      by (simp add: r'_def n'_def tzid_normalized_def Let_def)
  next
    case False
    then have e: "diff_fields X b a rt1 = u'"
      using u1 by simp
    have "invert rt1 = invert u'"
      using False by (simp add: u'_def inv_u rt1_def)
    then show ?thesis
      using timelib_diff_plain [OF _ sort_ab] assms(1) False
      by (simp add: r'_def n'_def e)
  qed
  have mu: "magnitudes u' = magnitudes u"
    by (simp add: u'_def magnitudes_invert)
  have iu: "invert u = 0 \<or> invert u = 1"
    by (simp add: inv_u)
  have dr: "days r = days u" "days r' = days u"
    by (simp_all add: r_def r'_def n_def n'_def days_tzid_dst_correct days_rel_normalize u'_def)
  have ir: "invert r = invert u" "invert r' = 1 - invert u"
    by (simp_all add: r_def r'_def n_def n'_def invert_tzid_dst_correct invert_rel_normalize
        u'_def)
  have mr: "magnitudes n' = magnitudes n \<longrightarrow> magnitudes r' = magnitudes r"
  proof (intro impI)
    assume m: "magnitudes n' = magnitudes n"
    show "magnitudes r' = magnitudes r"
    proof (cases shared)
      case True
      then show ?thesis
        using magnitudes_tzid_dst_correct [OF m, of X b a] by (simp add: r_def r'_def)
    next
      case False
      then show ?thesis
        using m by (simp add: r_def r'_def)
    qed
  qed
  show ?thesis
    unfolding Let_def
    using res_ba res_ab mu iu dr ir mr
    unfolding r_def r'_def n_def n'_def u'_def u_def rt0_def
    by simp
qed

theorem diff_exchange_strict_witness:
  "same_tzid ny_0130_edt ny_0115_est = Inr True \<and>
   first_is_later True ny_0130_edt ny_0115_est \<and>
   timelib_diff example_collaborators ny_0115_est ny_0130_edt =
     Inr (zero_rel_time\<lparr>r_i := 45, invert := 1\<rparr>) \<and>
   timelib_diff example_collaborators ny_0130_edt ny_0115_est =
     Inr (zero_rel_time\<lparr>r_i := 45\<rparr>)"
proof -
  have h1: "same_tzid ny_0130_edt ny_0115_est = Inr True"
    by (simp add: ny_0130_edt_def ny_0115_est_def example_defs)
  have h2: "first_is_later True ny_0130_edt ny_0115_est"
    by (simp add: first_is_later_def calendar_fields_def ny_0130_edt_def ny_0115_est_def
        civil_def)
  have "timelib_diff example_collaborators ny_0115_est ny_0130_edt =
          Inr (zero_rel_time\<lparr>r_i := 45, invert := 1\<rparr>) \<and>
        timelib_diff example_collaborators ny_0130_edt ny_0115_est =
          Inr (zero_rel_time\<lparr>r_i := 45\<rparr>)"
    using diff_exchange_strict [OF h1 h2, of example_collaborators]
    by (simp add: ny_0130_edt_def ny_0115_est_def example_defs Let_def)
  with h1 h2 show ?thesis by simp
qed

subsection \<open>Applying an interval\<close>

text \<open>
  C6 as stated fails for \<open>timelib_sub\<close>, which never looks at the two mode flags: for
  an interval "one day, next Tuesday" (weekday-relative mode set) the relative slot
  receives the negated day and no mode.
\<close>

theorem timelib_sub_special_mode_counterexample:
  "have_weekday_relative next_tuesday \<noteq> 0 \<and>
   relative (timelib_add_relative plus1_noon next_tuesday) = next_tuesday \<and>
   relative (timelib_sub_relative plus1_noon next_tuesday) = zero_rel_time\<lparr>r_d := - 1\<rparr> \<and>
   relative (timelib_sub_relative plus1_noon next_tuesday) \<noteq> next_tuesday"
  by (simp add: next_tuesday_def timelib_add_relative_def timelib_sub_relative_def
      zero_rel_time_def plus1_noon_def civil_def Let_def)

text \<open>
  C6, as the code has it. \<open>timelib_add\<close>: if the interval has the weekday-relative or
  the special-relative mode, the whole interval is copied into the relative slot of the
  clone; otherwise the slot is cleared and receives the fields y, m, d, h, i, s, us,
  negated when the invert flag is set. \<open>timelib_sub\<close>: whatever the modes, the slot is
  cleared and receives the same fields with the opposite sign. Both then set
  \<open>have_relative\<close>, clear \<open>sse_uptodate\<close>, run \<open>timelib_update_ts\<close> and
  \<open>timelib_update_from_sse\<close>, and clear \<open>have_relative\<close>.
\<close>

theorem timelib_add_sub_relative_slot:
  "(let bias = (if invert iv \<noteq> 0 then - 1 else 1);
        slot_add =
          (if have_weekday_relative iv \<noteq> 0 \<or> have_special_relative iv \<noteq> 0 then iv
           else zero_rel_time
                  \<lparr>r_y := bias * r_y iv, r_m := bias * r_m iv, r_d := bias * r_d iv,
                   r_h := bias * r_h iv, r_i := bias * r_i iv, r_s := bias * r_s iv,
                   r_us := bias * r_us iv\<rparr>);
        slot_sub =
          zero_rel_time
            \<lparr>r_y := - (bias * r_y iv), r_m := - (bias * r_m iv), r_d := - (bias * r_d iv),
             r_h := - (bias * r_h iv), r_i := - (bias * r_i iv), r_s := - (bias * r_s iv),
             r_us := - (bias * r_us iv)\<rparr>;
        round_trip =
          (\<lambda>slot. (timelib_update_from_sse X
                      (timelib_update_ts X
                         (t\<lparr>relative := slot, have_relative := 1, sse_uptodate := 0\<rparr>)))
                   \<lparr>have_relative := 0\<rparr>)
    in timelib_add X t iv = round_trip slot_add \<and>
       timelib_sub X t iv = round_trip slot_sub)"
  by (simp add: timelib_add_def timelib_sub_def timelib_add_relative_def
      timelib_sub_relative_def Let_def mult.commute)

theorem timelib_add_sub_relative_slot_witness:
  "timelib_add example_collaborators plus1_noon next_tuesday =
     plus1_noon\<lparr>relative := next_tuesday\<rparr> \<and>
   timelib_add example_collaborators plus1_noon (hours_2_30\<lparr>invert := 1\<rparr>) =
     plus1_noon\<lparr>relative := zero_rel_time\<lparr>r_h := - 2, r_i := - 30\<rparr>, sse := 1704875400\<rparr> \<and>
   timelib_sub example_collaborators plus1_noon (hours_2_30\<lparr>invert := 1\<rparr>) =
     plus1_noon\<lparr>relative := zero_rel_time\<lparr>r_h := 2, r_i := 30\<rparr>, sse := 1704893400\<rparr>"
  using timelib_add_sub_relative_slot
      [where iv = next_tuesday and X = example_collaborators and t = plus1_noon]
    timelib_add_sub_relative_slot
      [where iv = "hours_2_30\<lparr>invert := 1\<rparr>" and X = example_collaborators and t = plus1_noon]
  by (simp add: Let_def next_tuesday_def hours_2_30_def zero_rel_time_def plus1_noon_def
      civil_def example_collaborators_def)

text \<open>
  C10. For an interval with neither the weekday-relative nor the special-relative mode,
  \<open>timelib_sub\<close> gives the same instant as \<open>timelib_add\<close> applied to the interval
  with its invert flag negated: both write the same relative slot and make the same
  round trip through the epoch.
\<close>

theorem timelib_sub_as_add_inverted:
  assumes "have_weekday_relative iv = 0" and "have_special_relative iv = 0"
  shows "timelib_sub_relative t iv =
           timelib_add_relative t (iv\<lparr>invert := (if invert iv = 0 then 1 else 0)\<rparr>) \<and>
         timelib_sub X t iv =
           timelib_add X t (iv\<lparr>invert := (if invert iv = 0 then 1 else 0)\<rparr>)"
  using assms
  by (simp add: timelib_add_def timelib_sub_def timelib_add_relative_def
      timelib_sub_relative_def Let_def)

theorem timelib_sub_as_add_inverted_witness:
  "have_weekday_relative hours_2_30 = 0 \<and> have_special_relative hours_2_30 = 0 \<and>
   timelib_sub example_collaborators plus1_noon hours_2_30 =
     plus1_noon\<lparr>relative := zero_rel_time\<lparr>r_h := - 2, r_i := - 30\<rparr>, sse := 1704875400\<rparr> \<and>
   timelib_add example_collaborators plus1_noon (hours_2_30\<lparr>invert := 1\<rparr>) =
     plus1_noon\<lparr>relative := zero_rel_time\<lparr>r_h := - 2, r_i := - 30\<rparr>, sse := 1704875400\<rparr>"
proof -
  have h: "have_weekday_relative hours_2_30 = 0" "have_special_relative hours_2_30 = 0"
    by (simp_all add: hours_2_30_def zero_rel_time_def)
  have i: "(if invert hours_2_30 = 0 then 1 else 0) = (1::int)"
    by (simp add: hours_2_30_def zero_rel_time_def)
  have a: "timelib_add example_collaborators plus1_noon (hours_2_30\<lparr>invert := 1\<rparr>) =
             plus1_noon\<lparr>relative := zero_rel_time\<lparr>r_h := - 2, r_i := - 30\<rparr>,
                        sse := 1704875400\<rparr>"
    by (simp add: timelib_add_def timelib_add_relative_def Let_def hours_2_30_def
        zero_rel_time_def plus1_noon_def civil_def example_collaborators_def)
  show ?thesis
    using timelib_sub_as_add_inverted [OF h, where X = example_collaborators and t = plus1_noon]
      h a
    by (simp only: i simp_thms)
qed

subsection \<open>Microsecond range reduction\<close>

lemma do_range_limit_us_floor:
  "do_range_limit 0 1000000 1000000 us s = (us mod 1000000, s + us div 1000000)"
proof (cases "us < 0")
  case True
  define n where "n = - us - 1"
  have n0: "0 \<le> n" using True by (simp add: n_def)
  have us: "us = - n - 1" by (simp add: n_def)
  have d: "us div 1000000 = - (n div 1000000) - 1"
    unfolding us by (simp add: div_eq_minus1 zdiv_zminus1_eq_if)
  have k: "c_div (0 - us - 1) 1000000 = n div 1000000"
    using n0 by (simp add: c_div_nonneg n_def)
  have "us mod 1000000 = us - 1000000 * (us div 1000000)"
    by (simp add: minus_mult_div_eq_mod)
  then have m: "us + 1000000 * (n div 1000000 + 1) = us mod 1000000"
    using d by simp
  have r: "\<not> us mod 1000000 \<ge> 1000000"
    by (simp add: not_le)
  show ?thesis
    using True k m r d by (simp add: do_range_limit_def Let_def)
next
  case False
  then have nn: "0 \<le> us" by simp
  show ?thesis
  proof (cases "us \<ge> 1000000")
    case True
    have "c_div us 1000000 = us div 1000000"
      using nn by (simp add: c_div_nonneg)
    then show ?thesis
      using True False by (simp add: do_range_limit_def Let_def minus_mult_div_eq_mod)
  next
    case small: False
    then have "us div 1000000 = 0" "us mod 1000000 = us"
      using nn by simp_all
    then show ?thesis
      using small False by (simp add: do_range_limit_def Let_def)
  qed
qed

text \<open>
  C5. Reducing a microsecond value with \<open>do_range_limit(0, 1000000, 1000000, &us, &s)\<close>:
  the new microsecond value lies in \<open>[0, 1000000)\<close>, the total \<open>s * 1000000 + us\<close> is
  unchanged, the reduction is floor division (for \<open>us = -500000\<close> the result is
  \<open>500000\<close> with \<open>s\<close> decremented by one), and a value already in range leaves both
  untouched.
\<close>

theorem do_range_limit_microseconds:
  fixes us s :: int
  shows "(case do_range_limit 0 1000000 1000000 us s of (us', s') \<Rightarrow>
            0 \<le> us' \<and> us' < 1000000 \<and>
            s' * 1000000 + us' = s * 1000000 + us \<and>
            us' = us mod 1000000 \<and> s' = s + us div 1000000 \<and>
            (0 \<le> us \<and> us < 1000000 \<longrightarrow> us' = us \<and> s' = s)) \<and>
         do_range_limit 0 1000000 1000000 (- 500000) s = (500000, s - 1)"
  by (simp add: do_range_limit_us_floor algebra_simps)

theorem do_range_limit_microseconds_witness:
  "(0 \<le> (250000::int) \<and> (250000::int) < 1000000) \<and>
   do_range_limit 0 1000000 1000000 250000 7 = (250000, 7) \<and>
   do_range_limit 0 1000000 1000000 (- 500000) 7 = (500000, 6)"
  using do_range_limit_microseconds [where us = 250000 and s = 7]
  by (simp split: prod.splits)

end
